theory Spec2Isabelle
  imports Complex_Main "HOL-Library.AList" "HOL-Library.Monad_Syntax"
begin

section \<open>Values, documents and the environment\<close>

text \<open>
  The service (\<^verbatim>\<open>main.py\<close>) is a set of FastAPI handlers over two MongoDB
  collections, \<^verbatim>\<open>product\<close> and \<^verbatim>\<open>order\<close>. Request bodies arrive as JSON, stored
  documents are Python dicts of BSON values. Both are modelled by one type of values.
  A finite Python \<^verbatim>\<open>float\<close> is represented by the real number it denotes; NaN and
  the infinities are outside the model. Arithmetic on floats rounds, so the product and
  the sum that \<^verbatim>\<open>create_order\<close> computes are operations of the library, not of the
  reals. A dict is an association list with distinct keys, in insertion order;
  \<^verbatim>\<open>d.get(k)\<close> is \<open>map_of d k\<close>.
\<close>

record datetime =
  dt_year :: nat
  dt_month :: nat
  dt_day :: nat
  dt_hour :: nat
  dt_minute :: nat
  dt_second :: nat
  dt_microsecond :: nat

datatype val =
    VNull
  | VBool bool
  | VInt int
  | VFloat real
  | VStr string
  | VList "val list"
  | VDict "(string \<times> val) list"
  | VDate datetime

type_synonym pydict = "(string \<times> val) list"

text \<open>
  An \<^verbatim>\<open>ObjectId\<close> is represented by its text rendering \<^verbatim>\<open>str(oid)\<close>. Every stored
  document carries the \<^verbatim>\<open>_id\<close> the store assigned on insertion, kept apart from the
  other fields: \<^verbatim>\<open>str(d.get("_id"))\<close> is \<open>doc_id d\<close>.
\<close>

type_synonym oid = string

record doc =
  doc_id :: oid
  doc_fields :: pydict

text \<open>
  What the libraries decide and the repository does not is a parameter of the model:
  the parsing of numerals in strings (\<^verbatim>\<open>float(s)\<close>), the coercions pydantic's lax mode
  applies to a value that is not already of the field's type, the id format of
  \<^verbatim>\<open>bson.ObjectId\<close>, the ids the store generates, the store's regular expressions
  (\<open>None\<close> for a pattern the store rejects), and the order in which the store returns
  the documents of a cursor sorted on a field, descending. So is floating-point
  arithmetic: the conversion of an \<^verbatim>\<open>int\<close> to a \<^verbatim>\<open>float\<close> (\<open>None\<close> when Python
  raises \<^verbatim>\<open>OverflowError\<close>, the int being too large), the product of two floats, and
  the built-in \<^verbatim>\<open>sum\<close> of a list of floats.
\<close>

record pylib =
  float_of_str :: "string \<Rightarrow> real option"
  lax_float :: "val \<Rightarrow> real option"
  lax_int :: "val \<Rightarrow> int option"
  lax_bool :: "val \<Rightarrow> bool option"
  oid_is_valid :: "string \<Rightarrow> bool"
  oid_of_str :: "string \<Rightarrow> oid"
  gen_oid :: "nat \<Rightarrow> oid"
  regex_i :: "string \<Rightarrow> (string \<Rightarrow> bool) option"
  sort_desc :: "string \<Rightarrow> doc list \<Rightarrow> doc list"
  int_to_float :: "int \<Rightarrow> real option"
  float_mul :: "real \<Rightarrow> real \<Rightarrow> real"
  float_sum :: "real list \<Rightarrow> real"

datatype pyexc =
  AttributeError | TypeError | ValueError | ValidationError | OperationFailure | OverflowError

text \<open>
  The failures of a request. The first five are raised by the code as
  \<^verbatim>\<open>HTTPException\<close> (or by FastAPI's request validation); \<open>Uncaught\<close> is a Python
  exception that leaves the handler, which the framework answers with status 500.
\<close>

datatype error =
    SchemaViolation
  | InvalidIdFormat
  | NotFound
  | EmptyOrder
  | StoreUnconfigured
  | Uncaught pyexc

fun status_code :: "error \<Rightarrow> nat" where
  "status_code SchemaViolation = 422"
| "status_code InvalidIdFormat = 400"
| "status_code NotFound = 404"
| "status_code EmptyOrder = 400"
| "status_code StoreUnconfigured = 500"
| "status_code (Uncaught e) = 500"

subsection \<open>Python built-ins used by the handlers\<close>

text \<open>\<^verbatim>\<open>float(v)\<close> on a value read from a stored document: a \<^verbatim>\<open>TypeError\<close> for a
  value that is neither a number nor a string, a \<^verbatim>\<open>ValueError\<close> for a string that
  is not a numeral. An integer of a stored document has at most 64 bits, so its
  conversion does not overflow.\<close>

fun py_float :: "pylib \<Rightarrow> val \<Rightarrow> error + real" where
  "py_float L (VFloat r) = Inr r"
| "py_float L (VInt i) = Inr (of_int i)"
| "py_float L (VBool b) = Inr (if b then 1 else 0)"
| "py_float L (VStr s) =
     (case float_of_str L s of None \<Rightarrow> Inl (Uncaught ValueError) | Some r \<Rightarrow> Inr r)"
| "py_float L v = Inl (Uncaught TypeError)"

text \<open>\<^verbatim>\<open>bool(v)\<close>: the truth value of a Python object.\<close>

fun py_bool :: "val \<Rightarrow> bool" where
  "py_bool VNull = False"
| "py_bool (VBool b) = b"
| "py_bool (VInt i) = (i \<noteq> 0)"
| "py_bool (VFloat r) = (r \<noteq> 0)"
| "py_bool (VStr s) = (s \<noteq> [])"
| "py_bool (VList xs) = (xs \<noteq> [])"
| "py_bool (VDict kv) = (kv \<noteq> [])"
| "py_bool (VDate t) = True"

text \<open>\<^verbatim>\<open>if q:\<close> on an \<^verbatim>\<open>Optional[str]\<close>: neither \<^verbatim>\<open>None\<close> nor the empty string.\<close>

fun truthy :: "string option \<Rightarrow> bool" where
  "truthy None = False"
| "truthy (Some s) = (s \<noteq> [])"

text \<open>\<^verbatim>\<open>d.get(k, default)\<close>, and \<^verbatim>\<open>d.get(k)\<close>, whose default is \<^verbatim>\<open>None\<close>.\<close>

definition dict_get :: "pydict \<Rightarrow> string \<Rightarrow> val \<Rightarrow> val" where
  "dict_get d k dflt = (case map_of d k of None \<Rightarrow> dflt | Some v \<Rightarrow> v)"

definition py_get :: "pydict \<Rightarrow> string \<Rightarrow> val" where
  "py_get d k = dict_get d k VNull"

subsection \<open>Field validation (pydantic)\<close>

text \<open>
  A field of type \<^verbatim>\<open>str\<close> accepts a string only. A field of type \<^verbatim>\<open>float\<close>,
  \<^verbatim>\<open>int\<close> or \<^verbatim>\<open>bool\<close> accepts a value of its own type; where a float is expected
  an integer is accepted and converted, unless it is too large to convert, which is a
  validation error. What else lax mode coerces is the library's.
\<close>

fun as_str :: "val \<Rightarrow> string option" where
  "as_str (VStr s) = Some s"
| "as_str v = None"

fun as_float :: "pylib \<Rightarrow> val \<Rightarrow> real option" where
  "as_float L (VFloat r) = Some r"
| "as_float L (VInt i) = int_to_float L i"
| "as_float L v = lax_float L v"

fun as_int :: "pylib \<Rightarrow> val \<Rightarrow> int option" where
  "as_int L (VInt i) = Some i"
| "as_int L v = lax_int L v"

fun as_bool :: "pylib \<Rightarrow> val \<Rightarrow> bool option" where
  "as_bool L (VBool b) = Some b"
| "as_bool L v = lax_bool L v"

text \<open>\<^verbatim>\<open>Optional[T]\<close> accepts \<^verbatim>\<open>None\<close> and keeps it. A required field and a
  field with a default read the body; \<open>None\<close> is a validation error.\<close>

fun as_optional :: "(val \<Rightarrow> 'a option) \<Rightarrow> val \<Rightarrow> 'a option option" where
  "as_optional f VNull = Some None"
| "as_optional f v = map_option Some (f v)"

definition required :: "(val \<Rightarrow> 'a option) \<Rightarrow> pydict \<Rightarrow> string \<Rightarrow> 'a option" where
  "required f kv k = (case map_of kv k of None \<Rightarrow> None | Some v \<Rightarrow> f v)"

definition defaulted :: "(val \<Rightarrow> 'a option) \<Rightarrow> 'a \<Rightarrow> pydict \<Rightarrow> string \<Rightarrow> 'a option" where
  "defaulted f d kv k = (case map_of kv k of None \<Rightarrow> Some d | Some v \<Rightarrow> f v)"

section \<open>Schemas\<close>

text \<open>The models of \<^verbatim>\<open>main.py\<close>. Field names carry the model's initials, since
  the models share them.\<close>

record CreateProduct =
  cp_title :: string
  cp_description :: "string option"
  cp_price :: real
  cp_category :: string
  cp_in_stock :: bool
  cp_image :: "string option"
  cp_rating :: "real option"

record ProductOut =
  po_id :: string
  po_title :: string
  po_description :: "string option"
  po_price :: real
  po_category :: string
  po_in_stock :: bool
  po_image :: "string option"
  po_rating :: "real option"

record OrderItem =
  oi_product_id :: string
  oi_title :: string
  oi_quantity :: int
  oi_price :: real

record CreateOrder =
  co_customer_name :: string
  co_customer_email :: string
  co_shipping_address :: string
  co_items :: "OrderItem list"

record OrderOut =
  oo_id :: string
  oo_order_number :: string
  oo_total_amount :: real
  oo_items :: "OrderItem list"
  oo_status :: string
  oo_created_at :: datetime

text \<open>Validation of a request body against \<^verbatim>\<open>CreateProduct\<close>: \<^verbatim>\<open>price\<close> has
  \<^verbatim>\<open>ge=0\<close>; \<^verbatim>\<open>rating\<close> is \<^verbatim>\<open>Optional[float] = 0.0\<close> with no bound. Keys that the
  model does not declare are ignored.\<close>

definition parse_CreateProduct :: "pylib \<Rightarrow> val \<Rightarrow> CreateProduct option" where
  "parse_CreateProduct L body =
     (case body of
        VDict kv \<Rightarrow> do {
          t \<leftarrow> required as_str kv ''title'';
          d \<leftarrow> defaulted (as_optional as_str) None kv ''description'';
          p \<leftarrow> required (as_float L) kv ''price'';
          c \<leftarrow> required as_str kv ''category'';
          s \<leftarrow> defaulted (as_bool L) True kv ''in_stock'';
          i \<leftarrow> defaulted (as_optional as_str) None kv ''image'';
          r \<leftarrow> defaulted (as_optional (as_float L)) (Some 0.0) kv ''rating'';
          if 0 \<le> p
          then Some \<lparr>cp_title = t, cp_description = d, cp_price = p, cp_category = c,
                     cp_in_stock = s, cp_image = i, cp_rating = r\<rparr>
          else None
        }
      | _ \<Rightarrow> None)"

text \<open>\<^verbatim>\<open>OrderItem\<close>: \<^verbatim>\<open>quantity\<close> has \<^verbatim>\<open>ge=1\<close>, \<^verbatim>\<open>price\<close> has \<^verbatim>\<open>ge=0\<close>.\<close>

definition parse_OrderItem :: "pylib \<Rightarrow> val \<Rightarrow> OrderItem option" where
  "parse_OrderItem L v =
     (case v of
        VDict kv \<Rightarrow> do {
          pid \<leftarrow> required as_str kv ''product_id'';
          t \<leftarrow> required as_str kv ''title'';
          q \<leftarrow> required (as_int L) kv ''quantity'';
          p \<leftarrow> required (as_float L) kv ''price'';
          if 1 \<le> q \<and> 0 \<le> p
          then Some \<lparr>oi_product_id = pid, oi_title = t, oi_quantity = q, oi_price = p\<rparr>
          else None
        }
      | _ \<Rightarrow> None)"

fun parse_items :: "pylib \<Rightarrow> val list \<Rightarrow> OrderItem list option" where
  "parse_items L [] = Some []"
| "parse_items L (v # vs) =
     (case parse_OrderItem L v of
        None \<Rightarrow> None
      | Some it \<Rightarrow> map_option ((#) it) (parse_items L vs))"

fun as_items :: "pylib \<Rightarrow> val \<Rightarrow> OrderItem list option" where
  "as_items L (VList vs) = parse_items L vs"
| "as_items L v = None"

definition parse_CreateOrder :: "pylib \<Rightarrow> val \<Rightarrow> CreateOrder option" where
  "parse_CreateOrder L body =
     (case body of
        VDict kv \<Rightarrow> do {
          n \<leftarrow> required as_str kv ''customer_name'';
          e \<leftarrow> required as_str kv ''customer_email'';
          a \<leftarrow> required as_str kv ''shipping_address'';
          its \<leftarrow> required (as_items L) kv ''items'';
          Some \<lparr>co_customer_name = n, co_customer_email = e, co_shipping_address = a,
                co_items = its\<rparr>
        }
      | _ \<Rightarrow> None)"

text \<open>\<^verbatim>\<open>model_dump()\<close>: every declared field, in declaration order.\<close>

definition opt_str :: "string option \<Rightarrow> val" where
  "opt_str s = (case s of None \<Rightarrow> VNull | Some x \<Rightarrow> VStr x)"

definition opt_float :: "real option \<Rightarrow> val" where
  "opt_float r = (case r of None \<Rightarrow> VNull | Some x \<Rightarrow> VFloat x)"

definition dump_CreateProduct :: "CreateProduct \<Rightarrow> pydict" where
  "dump_CreateProduct p =
     [(''title'', VStr (cp_title p)),
      (''description'', opt_str (cp_description p)),
      (''price'', VFloat (cp_price p)),
      (''category'', VStr (cp_category p)),
      (''in_stock'', VBool (cp_in_stock p)),
      (''image'', opt_str (cp_image p)),
      (''rating'', opt_float (cp_rating p))]"

definition dump_OrderItem :: "OrderItem \<Rightarrow> pydict" where
  "dump_OrderItem it =
     [(''product_id'', VStr (oi_product_id it)),
      (''title'', VStr (oi_title it)),
      (''quantity'', VInt (oi_quantity it)),
      (''price'', VFloat (oi_price it))]"

section \<open>The store and the clock\<close>

text \<open>
  The database handle \<^verbatim>\<open>db\<close> is \<^verbatim>\<open>None\<close> when the service is not configured.
  Otherwise it gives the collections by name, each a list of documents in insertion
  order, and counts the ids it has generated. \<^verbatim>\<open>datetime.utcnow()\<close> reads a clock the
  model does not constrain: the \<open>n\<close>-th reading is \<open>clock w n\<close>.
\<close>

record store =
  colls :: "string \<Rightarrow> doc list"
  next_oid :: nat

record world =
  db :: "store option"
  clock :: "nat \<Rightarrow> datetime"
  ticks :: nat

definition utcnow :: "world \<Rightarrow> datetime \<times> world" where
  "utcnow w = (clock w (ticks w), w\<lparr>ticks := Suc (ticks w)\<rparr>)"

subsection \<open>Queries\<close>

text \<open>
  The filters the handlers build: \<^verbatim>\<open>{"_id": oid}\<close>, \<^verbatim>\<open>{field: text}\<close> and
  \<^verbatim>\<open>{field: {"$regex": pattern, "$options": "i"}}\<close>; a filter is the conjunction of its
  clauses and \<^verbatim>\<open>{}\<close> is the empty list. A clause on a field holds of a string
  that satisfies it and of an array with such a string among its elements. A pattern
  the store rejects fails the query.
\<close>

datatype clause = IdIs oid | FieldIs string string | FieldRegexI string string

fun elem_matches :: "(string \<Rightarrow> bool) \<Rightarrow> val \<Rightarrow> bool" where
  "elem_matches m (VStr s) = m s"
| "elem_matches m v = False"

fun field_matches :: "(string \<Rightarrow> bool) \<Rightarrow> val option \<Rightarrow> bool" where
  "field_matches m (Some (VStr s)) = m s"
| "field_matches m (Some (VList xs)) = list_ex (elem_matches m) xs"
| "field_matches m v = False"

fun compile_clause :: "pylib \<Rightarrow> clause \<Rightarrow> (doc \<Rightarrow> bool) option" where
  "compile_clause L (IdIs i) = Some (\<lambda>d. doc_id d = i)"
| "compile_clause L (FieldIs k s) =
     Some (\<lambda>d. field_matches (\<lambda>x. x = s) (map_of (doc_fields d) k))"
| "compile_clause L (FieldRegexI k p) =
     map_option (\<lambda>m d. field_matches m (map_of (doc_fields d) k)) (regex_i L p)"

fun compile_filter :: "pylib \<Rightarrow> clause list \<Rightarrow> (doc \<Rightarrow> bool) option" where
  "compile_filter L [] = Some (\<lambda>d. True)"
| "compile_filter L (c # cs) =
     (case compile_clause L c of
        None \<Rightarrow> None
      | Some f \<Rightarrow> map_option (\<lambda>g d. f d \<and> g d) (compile_filter L cs))"

definition coll_find :: "pylib \<Rightarrow> doc list \<Rightarrow> clause list \<Rightarrow> error + doc list" where
  "coll_find L docs fq =
     (case compile_filter L fq of
        None \<Rightarrow> Inl (Uncaught OperationFailure)
      | Some f \<Rightarrow> Inr (filter f docs))"

definition find_one :: "pylib \<Rightarrow> doc list \<Rightarrow> clause list \<Rightarrow> error + doc option" where
  "find_one L docs fq =
     (case coll_find L docs fq of
        Inl e \<Rightarrow> Inl e
      | Inr [] \<Rightarrow> Inr None
      | Inr (d # ds) \<Rightarrow> Inr (Some d))"

text \<open>\<^verbatim>\<open>cursor.limit(n)\<close>: a limit of 0 is no limit, and a negative limit counts as
  its absolute value.\<close>

definition cursor_limit :: "int \<Rightarrow> 'a list \<Rightarrow> 'a list" where
  "cursor_limit n xs = (if n = 0 then xs else take (nat \<bar>n\<bar>) xs)"

subsection \<open>The persistence helper\<close>

text \<open>
  Modelled from the spec: \<^verbatim>\<open>create_document\<close> of \<^verbatim>\<open>database.py\<close>, which is not among
  the sources. The spec gives the gateway \<^verbatim>\<open>insert-one(collectionName, document) -> id\<close>
  and has the read/write endpoints refuse with StoreUnconfigured when the handle is
  absent. The document is appended to its collection as it is, under a new id, and the
  id is returned as text.
\<close>

definition create_document ::
  "pylib \<Rightarrow> string \<Rightarrow> pydict \<Rightarrow> world \<Rightarrow> (error + string) \<times> world" where
  "create_document L coll data w =
     (case db w of
        None \<Rightarrow> (Inl StoreUnconfigured, w)
      | Some s \<Rightarrow>
          (let i = gen_oid L (next_oid s);
               d = \<lparr>doc_id = i, doc_fields = data\<rparr>;
               s' = s\<lparr>colls := (colls s)(coll := colls s coll @ [d]),
                      next_oid := Suc (next_oid s)\<rparr>
           in (Inr i, w\<lparr>db := Some s'\<rparr>)))"

section \<open>Handlers\<close>

subsection \<open>Products\<close>

text \<open>
  The expression \<^verbatim>\<open>ProductOut(id=str(d.get("_id")), title=d.get("title"), ...)\<close>, which
  \<^verbatim>\<open>list_products\<close> and \<^verbatim>\<open>get_product\<close> share word for word. The arguments are
  evaluated in order, so a failing \<^verbatim>\<open>float(...)\<close> of the price comes first, then one
  of the rating, then the validation of the model, where \<^verbatim>\<open>title\<close> and \<^verbatim>\<open>category\<close>
  must be strings and \<^verbatim>\<open>description\<close> and \<^verbatim>\<open>image\<close> strings or \<^verbatim>\<open>None\<close>.
\<close>

definition product_out :: "pylib \<Rightarrow> doc \<Rightarrow> error + ProductOut" where
  "product_out L d =
     (let f = doc_fields d in
      case py_float L (dict_get f ''price'' (VInt 0)) of
        Inl e \<Rightarrow> Inl e
      | Inr price \<Rightarrow>
          (case (if py_get f ''rating'' \<noteq> VNull
                 then py_float L (dict_get f ''rating'' (VFloat 0.0))
                 else Inr 0.0) of
             Inl e \<Rightarrow> Inl e
           | Inr rating \<Rightarrow>
               (case do {
                       t \<leftarrow> as_str (py_get f ''title'');
                       ds \<leftarrow> as_optional as_str (py_get f ''description'');
                       c \<leftarrow> as_str (dict_get f ''category'' (VStr ''General''));
                       im \<leftarrow> as_optional as_str (py_get f ''image'');
                       Some \<lparr>po_id = doc_id d, po_title = t, po_description = ds,
                             po_price = price, po_category = c,
                             po_in_stock = py_bool (dict_get f ''in_stock'' (VBool True)),
                             po_image = im, po_rating = Some rating\<rparr>
                     } of
                  None \<Rightarrow> Inl (Uncaught ValidationError)
                | Some out \<Rightarrow> Inr out)))"

text \<open>The loop \<^verbatim>\<open>for d in docs: products.append(ProductOut(...))\<close>: the first document
  that fails to map fails the request.\<close>

fun products_of :: "pylib \<Rightarrow> doc list \<Rightarrow> error + ProductOut list" where
  "products_of L [] = Inr []"
| "products_of L (d # ds) =
     (case product_out L d of
        Inl e \<Rightarrow> Inl e
      | Inr p \<Rightarrow> (case products_of L ds of Inl e \<Rightarrow> Inl e | Inr ps \<Rightarrow> Inr (p # ps)))"

definition filter_query :: "string option \<Rightarrow> string option \<Rightarrow> clause list" where
  "filter_query q category =
     (if truthy q then [FieldRegexI ''title'' (the q)] else []) @
     (if truthy category then [FieldIs ''category'' (the category)] else [])"

definition list_products ::
  "pylib \<Rightarrow> string option \<Rightarrow> string option \<Rightarrow> int \<Rightarrow> world \<Rightarrow> error + ProductOut list" where
  "list_products L q category limit w =
     (case db w of
        None \<Rightarrow> Inl StoreUnconfigured
      | Some s \<Rightarrow>
          (case coll_find L (colls s ''product'') (filter_query q category) of
             Inl e \<Rightarrow> Inl e
           | Inr docs \<Rightarrow> products_of L (cursor_limit limit docs)))"

text \<open>\<^verbatim>\<open>create_product(payload: CreateProduct)\<close>, and the endpoint \<^verbatim>\<open>POST /products\<close>,
  where the framework validates the body before it calls the handler.\<close>

definition create_product :: "pylib \<Rightarrow> CreateProduct \<Rightarrow> world \<Rightarrow> (error + string) \<times> world" where
  "create_product L payload w = create_document L ''product'' (dump_CreateProduct payload) w"

definition post_products :: "pylib \<Rightarrow> val \<Rightarrow> world \<Rightarrow> (error + string) \<times> world" where
  "post_products L body w =
     (case parse_CreateProduct L body of
        None \<Rightarrow> (Inl SchemaViolation, w)
      | Some payload \<Rightarrow> create_product L payload w)"

text \<open>\<^verbatim>\<open>get_product(product_id)\<close>. The handler does not test \<^verbatim>\<open>db\<close>: with no handle,
  \<^verbatim>\<open>db.product\<close> raises \<^verbatim>\<open>AttributeError\<close>. A document found is never an empty dict,
  since it has its \<^verbatim>\<open>_id\<close>.\<close>

definition get_product :: "pylib \<Rightarrow> string \<Rightarrow> world \<Rightarrow> error + ProductOut" where
  "get_product L product_id w =
     (if \<not> oid_is_valid L product_id then Inl InvalidIdFormat
      else case db w of
        None \<Rightarrow> Inl (Uncaught AttributeError)
      | Some s \<Rightarrow>
          (case find_one L (colls s ''product'') [IdIs (oid_of_str L product_id)] of
             Inl e \<Rightarrow> Inl e
           | Inr None \<Rightarrow> Inl NotFound
           | Inr (Some d) \<Rightarrow> product_out L d))"

subsection \<open>Orders\<close>

text \<open>\<^verbatim>\<open>strftime('%Y%m%d%H%M%S')\<close>: the year in four digits, the other fields in two,
  padded with zeros (for the dates a clock gives, whose year has four digits).\<close>

definition digit :: "nat \<Rightarrow> char" where
  "digit n = ''0123456789'' ! (n mod 10)"

definition pad2 :: "nat \<Rightarrow> string" where
  "pad2 n = [digit (n div 10), digit n]"

definition pad4 :: "nat \<Rightarrow> string" where
  "pad4 n = [digit (n div 1000), digit (n div 100), digit (n div 10), digit n]"

definition strftime :: "datetime \<Rightarrow> string" where
  "strftime t =
     pad4 (dt_year t) @ pad2 (dt_month t) @ pad2 (dt_day t) @
     pad2 (dt_hour t) @ pad2 (dt_minute t) @ pad2 (dt_second t)"

text \<open>
  \<^verbatim>\<open>sum([it.price * it.quantity for it in payload.items])\<close>. The product of a float
  and an int converts the int to a float first, which raises \<^verbatim>\<open>OverflowError\<close> for an
  int too large; the product itself and the sum are floating-point operations. The list
  is built in full before it is summed.
\<close>

fun line_totals :: "pylib \<Rightarrow> OrderItem list \<Rightarrow> error + real list" where
  "line_totals L [] = Inr []"
| "line_totals L (it # its) =
     (case int_to_float L (oi_quantity it) of
        None \<Rightarrow> Inl (Uncaught OverflowError)
      | Some q \<Rightarrow>
          (case line_totals L its of
             Inl e \<Rightarrow> Inl e
           | Inr xs \<Rightarrow> Inr (float_mul L (oi_price it) q # xs)))"

definition order_total :: "pylib \<Rightarrow> OrderItem list \<Rightarrow> error + real" where
  "order_total L items =
     (case line_totals L items of Inl e \<Rightarrow> Inl e | Inr xs \<Rightarrow> Inr (float_sum L xs))"

definition order_doc :: "CreateOrder \<Rightarrow> real \<Rightarrow> string \<Rightarrow> pydict" where
  "order_doc payload total_amount order_number =
     [(''customer_name'', VStr (co_customer_name payload)),
      (''customer_email'', VStr (co_customer_email payload)),
      (''shipping_address'', VStr (co_shipping_address payload)),
      (''items'', VList (map (\<lambda>it. VDict (dump_OrderItem it)) (co_items payload))),
      (''total_amount'', VFloat total_amount),
      (''order_number'', VStr order_number),
      (''status'', VStr ''pending'')]"

text \<open>\<^verbatim>\<open>create_order(payload: CreateOrder)\<close>. The total is computed first; an exception
  there leaves the handler before anything is read or written. The clock is read for
  the order number and, after the insertion, for the \<^verbatim>\<open>created_at\<close> of the response,
  which is not part of the document handed to \<^verbatim>\<open>create_document\<close>.\<close>

definition create_order :: "pylib \<Rightarrow> CreateOrder \<Rightarrow> world \<Rightarrow> (error + OrderOut) \<times> world" where
  "create_order L payload w =
     (if length (co_items payload) = 0 then (Inl EmptyOrder, w)
      else case order_total L (co_items payload) of
        Inl e \<Rightarrow> (Inl e, w)
      | Inr total_amount \<Rightarrow>
          (let (t1, w1) = utcnow w;
               order_number = ''ORD-'' @ strftime t1
           in case create_document L ''order'' (order_doc payload total_amount order_number) w1 of
                (Inl e, w2) \<Rightarrow> (Inl e, w2)
              | (Inr inserted_id, w2) \<Rightarrow>
                  (let (t3, w3) = utcnow w2
                   in (Inr \<lparr>oo_id = inserted_id, oo_order_number = order_number,
                             oo_total_amount = total_amount, oo_items = co_items payload,
                             oo_status = ''pending'', oo_created_at = t3\<rparr>, w3))))"

text \<open>The endpoint \<^verbatim>\<open>POST /orders\<close>: the framework validates the body against
  \<^verbatim>\<open>CreateOrder\<close> and answers 422 itself when that fails; only then is the handler
  called.\<close>

definition post_orders :: "pylib \<Rightarrow> val \<Rightarrow> world \<Rightarrow> (error + OrderOut) \<times> world" where
  "post_orders L body w =
     (case parse_CreateOrder L body of
        None \<Rightarrow> (Inl SchemaViolation, w)
      | Some payload \<Rightarrow> create_order L payload w)"

record OrderSummary =
  os_id :: string
  os_order_number :: val
  os_total_amount :: val
  os_status :: val
  os_created_at :: val

definition order_summary :: "doc \<Rightarrow> OrderSummary" where
  "order_summary d =
     \<lparr>os_id = doc_id d,
      os_order_number = py_get (doc_fields d) ''order_number'',
      os_total_amount = py_get (doc_fields d) ''total_amount'',
      os_status = py_get (doc_fields d) ''status'',
      os_created_at = py_get (doc_fields d) ''created_at''\<rparr>"

definition list_orders :: "pylib \<Rightarrow> int \<Rightarrow> world \<Rightarrow> error + OrderSummary list" where
  "list_orders L limit w =
     (case db w of
        None \<Rightarrow> Inl StoreUnconfigured
      | Some s \<Rightarrow>
          (case coll_find L (colls s ''order'') [] of
             Inl e \<Rightarrow> Inl e
           | Inr docs \<Rightarrow>
               Inr (map order_summary (cursor_limit limit (sort_desc L ''created_at'' docs)))))"

subsection \<open>Seed\<close>

definition sample_product :: "string \<Rightarrow> string \<Rightarrow> real \<Rightarrow> string \<Rightarrow> string \<Rightarrow> real \<Rightarrow> pydict" where
  "sample_product t d p c i r =
     [(''title'', VStr t), (''description'', VStr d), (''price'', VFloat p),
      (''category'', VStr c), (''in_stock'', VBool True), (''image'', VStr i),
      (''rating'', VFloat r)]"

definition sample :: "pydict list" where
  "sample =
     [sample_product ''Wireless Headphones''
        ''Noise-cancelling over-ear headphones with 30h battery.'' 99.99 ''Electronics''
        ''https://images.unsplash.com/photo-1518443881150-2f81e7a0f34b?w=800&q=80'' 4.5,
      sample_product ''Smart Watch''
        ''Fitness tracking, heart rate monitor, and notifications.'' 149.99 ''Wearables''
        ''https://images.unsplash.com/photo-1511732351157-1865efcb7b7b?w=800&q=80'' 4.2,
      sample_product ''Running Shoes''
        ''Lightweight and comfortable shoes for daily runs.'' 79.99 ''Footwear''
        ''https://images.unsplash.com/photo-1525966222134-fcfa99b8ae77?w=800&q=80'' 4.6,
      sample_product ''Backpack''
        ''Durable backpack with laptop compartment.'' 59.99 ''Accessories''
        ''https://images.unsplash.com/photo-1514477917009-389c76a86b68?w=800&q=80'' 4.1]"

text \<open>\<^verbatim>\<open>p["title"]\<close> of a sample entry; every entry has the key.\<close>

definition title_of :: "pydict \<Rightarrow> string" where
  "title_of p = (case map_of p ''title'' of Some (VStr t) \<Rightarrow> t | _ \<Rightarrow> [])"

text \<open>The loop of \<^verbatim>\<open>seed_products\<close>, with the counter \<^verbatim>\<open>inserted\<close>. The handle is
  read again at every step, as the global \<^verbatim>\<open>db\<close> is.\<close>

fun seed_loop :: "pylib \<Rightarrow> pydict list \<Rightarrow> nat \<Rightarrow> world \<Rightarrow> (error + nat) \<times> world" where
  "seed_loop L [] inserted w = (Inr inserted, w)"
| "seed_loop L (p # ps) inserted w =
     (case db w of
        None \<Rightarrow> (Inl (Uncaught AttributeError), w)
      | Some s \<Rightarrow>
          (case find_one L (colls s ''product'') [FieldIs ''title'' (title_of p)] of
             Inl e \<Rightarrow> (Inl e, w)
           | Inr (Some existing) \<Rightarrow> seed_loop L ps inserted w
           | Inr None \<Rightarrow>
               (case create_document L ''product'' p w of
                  (Inl e, w') \<Rightarrow> (Inl e, w')
                | (Inr i, w') \<Rightarrow> seed_loop L ps (inserted + 1) w')))"

definition seed_products :: "pylib \<Rightarrow> world \<Rightarrow> (error + nat) \<times> world" where
  "seed_products L w =
     (case db w of
        None \<Rightarrow> (Inl StoreUnconfigured, w)
      | Some s \<Rightarrow> seed_loop L sample 0 w)"

text \<open>The routes \<^verbatim>\<open>GET /products\<close> and \<^verbatim>\<open>GET /orders\<close> with their defaults
  \<^verbatim>\<open>limit: int = 50\<close> and \<^verbatim>\<open>limit: int = 20\<close>.\<close>

definition get_products ::
  "pylib \<Rightarrow> string option \<Rightarrow> string option \<Rightarrow> int option \<Rightarrow> world \<Rightarrow> error + ProductOut list" where
  "get_products L q category limit w =
     list_products L q category (case limit of None \<Rightarrow> 50 | Some n \<Rightarrow> n) w"

definition get_orders :: "pylib \<Rightarrow> int option \<Rightarrow> world \<Rightarrow> error + OrderSummary list" where
  "get_orders L limit w = list_orders L (case limit of None \<Rightarrow> 20 | Some n \<Rightarrow> n) w"

section \<open>A concrete environment\<close>

text \<open>
  An instance of the library parameters, for the examples: no lax coercion, ids of
  24 hexadecimal characters in lower case, and patterns made of letters, digits and
  the dot, which as regular expressions match anywhere in the string, the dot standing
  for any character but a newline. An int converts to a float when it is below
  \<open>2 ^ 1024\<close> in absolute value, and the instance's arithmetic does not round. Its
  sort puts dates first, the latest first, then every document whose key is not a
  date; documents with equal keys keep their stored order. Dates compare field by
  field, which \<open>dt_key\<close> encodes in one number.
\<close>

definition dt_key :: "datetime \<Rightarrow> nat" where
  "dt_key t =
     ((((((dt_year t * 13 + dt_month t) * 32 + dt_day t) * 24 + dt_hour t) * 60
        + dt_minute t) * 60 + dt_second t) * 1000000 + dt_microsecond t)"

fun date_key :: "val \<Rightarrow> nat" where
  "date_key (VDate t) = Suc (dt_key t)"
| "date_key v = 0"

definition demo_sort_desc :: "string \<Rightarrow> doc list \<Rightarrow> doc list" where
  "demo_sort_desc k ds = rev (sort_key (\<lambda>d. date_key (py_get (doc_fields d) k)) (rev ds))"

definition lower :: "char \<Rightarrow> char" where
  "lower c =
     (case map_of (zip ''ABCDEFGHIJKLMNOPQRSTUVWXYZ'' ''abcdefghijklmnopqrstuvwxyz'') c of
        None \<Rightarrow> c
      | Some l \<Rightarrow> l)"

definition is_hex :: "char \<Rightarrow> bool" where
  "is_hex c = (c \<in> set ''0123456789abcdefABCDEF'')"

definition is_word :: "char \<Rightarrow> bool" where
  "is_word c =
     (c \<in> set ''abcdefghijklmnopqrstuvwxyzABCDEFGHIJKLMNOPQRSTUVWXYZ0123456789'')"

fun match_here :: "string \<Rightarrow> string \<Rightarrow> bool" where
  "match_here [] s = True"
| "match_here (p # ps) [] = False"
| "match_here (p # ps) (c # cs) =
     ((if p = CHR ''.'' then c \<noteq> CHR 0x0A else lower p = lower c) \<and> match_here ps cs)"

fun match_anywhere :: "string \<Rightarrow> string \<Rightarrow> bool" where
  "match_anywhere p [] = match_here p []"
| "match_anywhere p (c # cs) = (match_here p (c # cs) \<or> match_anywhere p cs)"

definition hex4 :: "nat \<Rightarrow> string" where
  "hex4 n =
     map (\<lambda>k. ''0123456789abcdef'' ! ((n div k) mod 16)) [4096, 256, 16, 1]"

definition demo_lib :: pylib where
  "demo_lib =
     \<lparr>float_of_str = (\<lambda>s. None),
      lax_float = (\<lambda>v. None),
      lax_int = (\<lambda>v. None),
      lax_bool = (\<lambda>v. None),
      oid_is_valid = (\<lambda>s. length s = 24 \<and> list_all is_hex s),
      oid_of_str = map lower,
      gen_oid = (\<lambda>n. ''00000000000000000000'' @ hex4 n),
      regex_i = (\<lambda>p. if list_all (\<lambda>c. is_word c \<or> c = CHR ''.'') p
                       then Some (match_anywhere p) else None),
      sort_desc = demo_sort_desc,
      int_to_float = (\<lambda>i. if \<bar>i\<bar> < 2 ^ 1024 then Some (of_int i) else None),
      float_mul = (\<lambda>x y. x * y),
      float_sum = sum_list\<rparr>"

definition demo_clock :: "nat \<Rightarrow> datetime" where
  "demo_clock n =
     \<lparr>dt_year = 2024, dt_month = 5, dt_day = 17, dt_hour = 9, dt_minute = 30,
      dt_second = n, dt_microsecond = 0\<rparr>"

definition empty_store :: store where
  "empty_store = \<lparr>colls = (\<lambda>c. []), next_oid = 0\<rparr>"

definition fresh_world :: world where
  "fresh_world = \<lparr>db = Some empty_store, clock = demo_clock, ticks = 0\<rparr>"

definition unconfigured_world :: world where
  "unconfigured_world = \<lparr>db = None, clock = demo_clock, ticks = 0\<rparr>"

text \<open>The document \<^verbatim>\<open>create_document\<close> appends for \<open>data\<close> to store \<open>s\<close>.\<close>

definition inserted_doc :: "pylib \<Rightarrow> pydict \<Rightarrow> store \<Rightarrow> doc" where
  "inserted_doc L data s = \<lparr>doc_id = gen_oid L (next_oid s), doc_fields = data\<rparr>"

text \<open>The order of the spec's example, with a \<^verbatim>\<open>total_amount\<close> the client made up.\<close>

definition mug_item :: OrderItem where
  "mug_item = \<lparr>oi_product_id = ''p1'', oi_title = ''Mug'', oi_quantity = 2, oi_price = 9.99\<rparr>"

definition mug_order :: CreateOrder where
  "mug_order =
     \<lparr>co_customer_name = ''A'', co_customer_email = ''a@b.com'', co_shipping_address = ''X'',
      co_items = [mug_item]\<rparr>"


text \<open>An order without items, complete otherwise, and one that also lacks the
  customer's name.\<close>

definition empty_order_body :: pydict where
  "empty_order_body =
     [(''customer_name'', VStr ''A''), (''customer_email'', VStr ''a@b.com''),
      (''shipping_address'', VStr ''X''), (''items'', VList [])]"

definition nameless_order_body :: pydict where
  "nameless_order_body =
     [(''customer_email'', VStr ''a@b.com''), (''shipping_address'', VStr ''X''),
      (''items'', VList [])]"

text \<open>
  The stored documents on which the mapping to \<^verbatim>\<open>ProductOut\<close> is sure to succeed:
  \<^verbatim>\<open>title\<close> is text and every other field is absent or of the type its schema
  gives it (\<^verbatim>\<open>in_stock\<close> may hold anything, since \<^verbatim>\<open>bool(...)\<close> accepts anything).
\<close>

fun is_text :: "val \<Rightarrow> bool" where
  "is_text (VStr s) = True"
| "is_text v = False"

fun is_number :: "val \<Rightarrow> bool" where
  "is_number (VInt i) = True"
| "is_number (VFloat r) = True"
| "is_number v = False"

definition absent_or :: "(val \<Rightarrow> bool) \<Rightarrow> val option \<Rightarrow> bool" where
  "absent_or P vo = (case vo of None \<Rightarrow> True | Some v \<Rightarrow> P v)"

definition schema_typed :: "pydict \<Rightarrow> bool" where
  "schema_typed f =
     (absent_or (\<lambda>v. v = VNull \<or> is_text v) (map_of f ''description'') \<and>
      absent_or is_number (map_of f ''price'') \<and>
      absent_or is_text (map_of f ''category'') \<and>
      absent_or (\<lambda>v. v = VNull \<or> is_text v) (map_of f ''image'') \<and>
      absent_or (\<lambda>v. v = VNull \<or> is_number v) (map_of f ''rating''))"

text \<open>A stored product with no \<^verbatim>\<open>title\<close>, and one with nothing but a title.\<close>

definition untitled_doc :: doc where
  "untitled_doc =
     \<lparr>doc_id = ''65f0a1b2c3d4e5f601234567'',
      doc_fields = [(''price'', VFloat 5), (''category'', VStr ''Home''),
                    (''in_stock'', VBool True)]\<rparr>"

definition bare_doc :: doc where
  "bare_doc = \<lparr>doc_id = ''65f0a1b2c3d4e5f601234568'', doc_fields = [(''title'', VStr ''Mug'')]\<rparr>"

text \<open>The product of the spec's example, and the same with a rating of 7.\<close>

definition mug_body :: pydict where
  "mug_body = [(''title'', VStr ''Mug''), (''price'', VFloat 9.99), (''category'', VStr ''Home'')]"

definition overrated_mug_body :: pydict where
  "overrated_mug_body =
     [(''title'', VStr ''Mug''), (''price'', VFloat 9.99), (''category'', VStr ''Home''),
      (''rating'', VFloat 7)]"

text \<open>A store that holds the product of the spec's example, as Create Product
  writes it.\<close>

definition mug_doc :: doc where
  "mug_doc =
     \<lparr>doc_id = ''65f0a1b2c3d4e5f601234569'',
      doc_fields =
        [(''title'', VStr ''Mug''), (''description'', VNull), (''price'', VFloat 9.99),
         (''category'', VStr ''Home''), (''in_stock'', VBool True), (''image'', VNull),
         (''rating'', VFloat 0)]\<rparr>"

definition mug_store :: store where
  "mug_store = \<lparr>colls = (\<lambda>c. if c = ''product'' then [mug_doc] else []), next_oid = 1\<rparr>"

definition mug_world :: world where
  "mug_world = \<lparr>db = Some mug_store, clock = demo_clock, ticks = 0\<rparr>"

text \<open>A store whose only product is the one without a title.\<close>

definition untitled_store :: store where
  "untitled_store =
     \<lparr>colls = (\<lambda>c. if c = ''product'' then [untitled_doc] else []), next_oid = 1\<rparr>"

definition untitled_world :: world where
  "untitled_world = \<lparr>db = Some untitled_store, clock = demo_clock, ticks = 0\<rparr>"

text \<open>The filter \<^verbatim>\<open>{"title": t}\<close> on one document.\<close>

definition has_title :: "string \<Rightarrow> doc \<Rightarrow> bool" where
  "has_title t d = field_matches (\<lambda>x. x = t) (map_of (doc_fields d) ''title'')"

text \<open>
  Following the spec's words for List Products, to compare with the filter the code
  builds: \<open>q\<close> occurs in the title as a substring, letter case ignored.
\<close>

fun is_prefix_ci :: "string \<Rightarrow> string \<Rightarrow> bool" where
  "is_prefix_ci [] s = True"
| "is_prefix_ci (p # ps) [] = False"
| "is_prefix_ci (p # ps) (c # cs) = (lower p = lower c \<and> is_prefix_ci ps cs)"

fun spec_contains_ci :: "string \<Rightarrow> string \<Rightarrow> bool" where
  "spec_contains_ci q [] = is_prefix_ci q []"
| "spec_contains_ci q (c # cs) = (is_prefix_ci q (c # cs) \<or> spec_contains_ci q cs)"

text \<open>The output of the stored example product.\<close>

definition mug_out :: ProductOut where
  "mug_out =
     \<lparr>po_id = ''65f0a1b2c3d4e5f601234569'', po_title = ''Mug'', po_description = None,
      po_price = 9.99, po_category = ''Home'', po_in_stock = True, po_image = None,
      po_rating = Some 0\<rparr>"


text \<open>The product of the spec's example with \<^verbatim>\<open>"rating": null\<close>.\<close>

definition unrated_mug_body :: pydict where
  "unrated_mug_body =
     [(''title'', VStr ''Mug''), (''price'', VFloat 9.99), (''category'', VStr ''Home''),
      (''rating'', VNull)]"



section \<open>Properties\<close>

subsection \<open>Auxiliary facts\<close>


lemma defaulted_update_other:
  "k \<noteq> k' \<Longrightarrow> defaulted f d (AList.update k v kv) k' = defaulted f d kv k'"
  by (simp add: defaulted_def update_conv')


lemma create_document_configured:
  assumes "db w = Some s"
  shows "create_document L c data w =
     (Inr (gen_oid L (next_oid s)),
      w\<lparr>db := Some (s\<lparr>colls := (colls s)(c := colls s c @ [inserted_doc L data s]),
                      next_oid := Suc (next_oid s)\<rparr>)\<rparr>)"
  using assms by (simp add: create_document_def inserted_doc_def Let_def)

lemma map_of_inserted_doc: "map_of (doc_fields (inserted_doc L data s)) k = map_of data k"
  by (simp add: inserted_doc_def)








subsection \<open>The total of an order\<close>




subsection \<open>Orders without items\<close>

lemma required_as_str:
  "required as_str kv k = Some s \<longleftrightarrow> map_of kv k = Some (VStr s)"
proof (cases "map_of kv k")
  case None
  then show ?thesis by (simp add: required_def)
next
  case (Some v)
  then show ?thesis by (cases v) (auto simp: required_def)
qed

lemma required_as_str_None:
  "required as_str kv k = None \<longleftrightarrow> (\<forall>s. map_of kv k \<noteq> Some (VStr s))"
  using required_as_str [of kv k] by (metis not_Some_eq)

text \<open>
  C2, as stated, fails: an order with no items and no \<^verbatim>\<open>customer_name\<close> is answered
  with SchemaViolation, not EmptyOrder, because the body is validated before the
  handler runs.
\<close>

theorem post_orders_schema_first:
  "post_orders demo_lib (VDict nameless_order_body) fresh_world = (Inl SchemaViolation, fresh_world)"
  by (simp add: post_orders_def parse_CreateOrder_def required_def nameless_order_body_def)

text \<open>
  C2, amended. A Create Order request whose \<^verbatim>\<open>items\<close> is the empty list fails with
  EmptyOrder (status 400) when its three other fields are present as text, and with
  SchemaViolation (status 422) otherwise; in both cases the world, and so the store, is
  unchanged.
\<close>

theorem post_orders_empty_items:
  assumes "map_of kv ''items'' = Some (VList [])"
  shows "post_orders L (VDict kv) w =
     (if (\<exists>n e a. map_of kv ''customer_name'' = Some (VStr n) \<and>
                   map_of kv ''customer_email'' = Some (VStr e) \<and>
                   map_of kv ''shipping_address'' = Some (VStr a))
      then (Inl EmptyOrder, w) else (Inl SchemaViolation, w)) \<and>
     status_code EmptyOrder = 400 \<and> status_code SchemaViolation = 422"
proof -
  have items: "required (as_items L) kv ''items'' = Some []"
    using assms by (simp add: required_def)
  show ?thesis
  proof (cases "\<exists>n e a. map_of kv ''customer_name'' = Some (VStr n) \<and>
                   map_of kv ''customer_email'' = Some (VStr e) \<and>
                   map_of kv ''shipping_address'' = Some (VStr a)")
    case True
    then obtain n e a where "required as_str kv ''customer_name'' = Some n"
      "required as_str kv ''customer_email'' = Some e"
      "required as_str kv ''shipping_address'' = Some a"
      unfolding required_as_str by blast
    with True items show ?thesis
      by (simp add: post_orders_def parse_CreateOrder_def create_order_def)
  next
    case False
    then have "required as_str kv ''customer_name'' = None \<or>
      required as_str kv ''customer_email'' = None \<or>
      required as_str kv ''shipping_address'' = None"
      unfolding required_as_str_None by blast
    then have "parse_CreateOrder L (VDict kv) = None"
      by (auto simp: parse_CreateOrder_def split: Option.bind_splits)
    with False show ?thesis by (simp add: post_orders_def)
  qed
qed

theorem post_orders_empty_items_witness:
  "map_of empty_order_body ''items'' = Some (VList []) \<and>
   post_orders demo_lib (VDict empty_order_body) fresh_world = (Inl EmptyOrder, fresh_world)"
proof -
  have h: "map_of empty_order_body ''items'' = Some (VList [])"
    by (simp add: empty_order_body_def)
  show ?thesis
    using h post_orders_empty_items [OF h, of demo_lib fresh_world]
    by (simp add: empty_order_body_def)
qed

subsection \<open>The mapping from a stored product to its output\<close>

text \<open>
  C3, as stated, fails: a stored product without a \<^verbatim>\<open>title\<close> does not map, since
  \<^verbatim>\<open>ProductOut.title\<close> is a required \<^verbatim>\<open>str\<close> and \<^verbatim>\<open>d.get("title")\<close> is \<^verbatim>\<open>None\<close>.
\<close>

theorem product_out_untitled:
  "product_out demo_lib untitled_doc = Inl (Uncaught ValidationError)"
  by (simp add: product_out_def untitled_doc_def dict_get_def py_get_def)

lemma absent_or_cases:
  "absent_or P vo \<longleftrightarrow> vo = None \<or> (\<exists>v. vo = Some v \<and> P v)"
  by (cases vo) (simp_all add: absent_or_def)

lemma is_text_cases: "is_text v \<longleftrightarrow> (\<exists>s. v = VStr s)"
  by (cases v) simp_all

lemma is_number_cases: "is_number v \<longleftrightarrow> (\<exists>i. v = VInt i) \<or> (\<exists>r. v = VFloat r)"
  by (cases v) simp_all

lemma py_float_number: "is_number v \<Longrightarrow> \<exists>r. py_float L v = Inr r"
  by (cases v) simp_all

lemma product_out_price:
  assumes "absent_or is_number (map_of f ''price'')"
  shows "\<exists>r. py_float L (dict_get f ''price'' (VInt 0)) = Inr r \<and>
             (map_of f ''price'' = None \<longrightarrow> r = 0)"
  using assms py_float_number [of _ L]
  by (auto simp: absent_or_cases dict_get_def)

lemma product_out_rating:
  assumes "absent_or (\<lambda>v. v = VNull \<or> is_number v) (map_of f ''rating'')"
  shows "\<exists>r. (if py_get f ''rating'' \<noteq> VNull
               then py_float L (dict_get f ''rating'' (VFloat 0.0)) else Inr 0.0) = Inr r \<and>
             (map_of f ''rating'' = None \<longrightarrow> r = 0)"
  using assms py_float_number [of _ L]
  by (auto simp: absent_or_cases dict_get_def py_get_def)

lemma product_out_category:
  assumes "absent_or is_text (map_of f ''category'')"
  shows "\<exists>c. as_str (dict_get f ''category'' (VStr ''General'')) = Some c \<and>
             (map_of f ''category'' = None \<longrightarrow> c = ''General'') \<and>
             (\<forall>x. map_of f ''category'' = Some (VStr x) \<longrightarrow> c = x)"
  using assms by (auto simp: absent_or_cases dict_get_def is_text_cases)

lemma product_out_optional:
  assumes "absent_or (\<lambda>v. v = VNull \<or> is_text v) (map_of f k)"
  shows "\<exists>x. as_optional as_str (py_get f k) = Some x \<and>
             (map_of f k = None \<longrightarrow> x = None) \<and>
             (\<forall>s. map_of f k = Some (VStr s) \<longrightarrow> x = Some s)"
  using assms by (auto simp: absent_or_cases dict_get_def py_get_def is_text_cases)

text \<open>
  C3, amended. A stored product whose \<^verbatim>\<open>title\<close> is text and whose other fields are
  absent or of their schema's type maps without failing, with \<^verbatim>\<open>"General"\<close>,
  \<^verbatim>\<open>True\<close>, 0.0, 0 and \<^verbatim>\<open>None\<close> for an absent category, in_stock, rating, price,
  description and image; a stored product whose \<^verbatim>\<open>title\<close> is absent or not text
  fails to map.
\<close>

theorem product_out_defaults:
  "(map_of f ''title'' = Some (VStr t) \<and> schema_typed f \<longrightarrow>
      (\<exists>out. product_out L \<lparr>doc_id = i, doc_fields = f\<rparr> = Inr out \<and>
         po_id out = i \<and> po_title out = t \<and>
         (map_of f ''category'' = None \<longrightarrow> po_category out = ''General'') \<and>
         (map_of f ''in_stock'' = None \<longrightarrow> po_in_stock out) \<and>
         (map_of f ''rating'' = None \<longrightarrow> po_rating out = Some 0) \<and>
         (map_of f ''price'' = None \<longrightarrow> po_price out = 0) \<and>
         (map_of f ''description'' = None \<longrightarrow> po_description out = None) \<and>
         (map_of f ''image'' = None \<longrightarrow> po_image out = None))) \<and>
   ((\<forall>s. map_of f ''title'' \<noteq> Some (VStr s)) \<longrightarrow>
      (\<exists>e. product_out L \<lparr>doc_id = i, doc_fields = f\<rparr> = Inl e))"
proof (intro conjI impI)
  assume a: "map_of f ''title'' = Some (VStr t) \<and> schema_typed f"
  then have st: "schema_typed f" and title: "as_str (py_get f ''title'') = Some t"
    by (simp_all add: py_get_def dict_get_def)
  from st obtain p where p: "py_float L (dict_get f ''price'' (VInt 0)) = Inr p"
    and p0: "map_of f ''price'' = None \<longrightarrow> p = 0"
    using product_out_price [of f L] by (auto simp: schema_typed_def)
  from st obtain r where r: "(if py_get f ''rating'' \<noteq> VNull
               then py_float L (dict_get f ''rating'' (VFloat 0.0)) else Inr 0.0) = Inr r"
    and r0: "map_of f ''rating'' = None \<longrightarrow> r = 0"
    using product_out_rating [of f L] by (auto simp: schema_typed_def)
  from st obtain c where c: "as_str (dict_get f ''category'' (VStr ''General'')) = Some c"
    and c0: "map_of f ''category'' = None \<longrightarrow> c = ''General''"
    using product_out_category [of f] by (auto simp: schema_typed_def)
  from st obtain ds where ds: "as_optional as_str (py_get f ''description'') = Some ds"
    and ds0: "map_of f ''description'' = None \<longrightarrow> ds = None"
    using product_out_optional [of f "''description''"] by (auto simp: schema_typed_def)
  from st obtain im where im: "as_optional as_str (py_get f ''image'') = Some im"
    and im0: "map_of f ''image'' = None \<longrightarrow> im = None"
    using product_out_optional [of f "''image''"] by (auto simp: schema_typed_def)
  have "product_out L \<lparr>doc_id = i, doc_fields = f\<rparr> =
      Inr \<lparr>po_id = i, po_title = t, po_description = ds, po_price = p, po_category = c,
           po_in_stock = py_bool (dict_get f ''in_stock'' (VBool True)),
           po_image = im, po_rating = Some r\<rparr>"
    unfolding product_out_def by (simp add: p r c ds im title del: One_nat_def)
  then show "\<exists>out. product_out L \<lparr>doc_id = i, doc_fields = f\<rparr> = Inr out \<and>
         po_id out = i \<and> po_title out = t \<and>
         (map_of f ''category'' = None \<longrightarrow> po_category out = ''General'') \<and>
         (map_of f ''in_stock'' = None \<longrightarrow> po_in_stock out) \<and>
         (map_of f ''rating'' = None \<longrightarrow> po_rating out = Some 0) \<and>
         (map_of f ''price'' = None \<longrightarrow> po_price out = 0) \<and>
         (map_of f ''description'' = None \<longrightarrow> po_description out = None) \<and>
         (map_of f ''image'' = None \<longrightarrow> po_image out = None)"
    using p0 r0 c0 ds0 im0 by (simp add: dict_get_def)
next
  assume a: "\<forall>s. map_of f ''title'' \<noteq> Some (VStr s)"
  have "as_str (py_get f ''title'') = None"
  proof (cases "map_of f ''title''")
    case None
    then show ?thesis by (simp add: py_get_def dict_get_def)
  next
    case (Some v)
    with a show ?thesis by (cases v) (simp_all add: py_get_def dict_get_def)
  qed
  then show "\<exists>e. product_out L \<lparr>doc_id = i, doc_fields = f\<rparr> = Inl e"
    unfolding product_out_def by (simp split: sum.splits)
qed

theorem product_out_defaults_witness:
  "map_of (doc_fields bare_doc) ''title'' = Some (VStr ''Mug'') \<and>
   schema_typed (doc_fields bare_doc) \<and>
   product_out demo_lib bare_doc =
     Inr \<lparr>po_id = doc_id bare_doc, po_title = ''Mug'', po_description = None, po_price = 0,
          po_category = ''General'', po_in_stock = True, po_image = None,
          po_rating = Some 0\<rparr> \<and>
   (\<exists>e. product_out demo_lib untitled_doc = Inl e)"
proof -
  have t: "map_of (doc_fields bare_doc) ''title'' = Some (VStr ''Mug'')"
    by (simp add: bare_doc_def)
  have s: "schema_typed (doc_fields bare_doc)"
    by (simp add: bare_doc_def schema_typed_def absent_or_def)
  have u: "\<forall>s. map_of (doc_fields untitled_doc) ''title'' \<noteq> Some (VStr s)"
    by (simp add: untitled_doc_def)
  have b: "\<lparr>doc_id = doc_id bare_doc, doc_fields = doc_fields bare_doc\<rparr> = bare_doc"
    by simp
  have ud: "\<lparr>doc_id = doc_id untitled_doc, doc_fields = doc_fields untitled_doc\<rparr> = untitled_doc"
    by simp
  from product_out_defaults [of "doc_fields bare_doc" "''Mug''" demo_lib "doc_id bare_doc"] t s
  obtain out where o: "product_out demo_lib bare_doc = Inr out"
    and "po_id out = doc_id bare_doc" "po_title out = ''Mug''" "po_category out = ''General''"
      "po_in_stock out" "po_rating out = Some 0" "po_price out = 0"
      "po_description out = None" "po_image out = None"
    unfolding b by (auto simp: bare_doc_def)
  then have "out = \<lparr>po_id = doc_id bare_doc, po_title = ''Mug'', po_description = None,
          po_price = 0, po_category = ''General'', po_in_stock = True, po_image = None,
          po_rating = Some 0\<rparr>"
    by (cases out) simp
  moreover from product_out_defaults [of "doc_fields untitled_doc" _ demo_lib "doc_id untitled_doc"] u
  have "\<exists>e. product_out demo_lib untitled_doc = Inl e"
    unfolding ud by blast
  ultimately show ?thesis using t s o by simp
qed

subsection \<open>Creating a product\<close>

lemma parse_overrated_mug:
  "parse_CreateProduct demo_lib (VDict overrated_mug_body) =
     Some \<lparr>cp_title = ''Mug'', cp_description = None, cp_price = 9.99, cp_category = ''Home'',
           cp_in_stock = True, cp_image = None, cp_rating = Some 7\<rparr>"
  by (simp add: parse_CreateProduct_def required_def defaulted_def overrated_mug_body_def)

text \<open>
  C4. \<^verbatim>\<open>CreateProduct.rating\<close> is declared \<^verbatim>\<open>Optional[float] = 0.0\<close>, without the
  bounds \<^verbatim>\<open>ge=0, le=5\<close> that \<^verbatim>\<open>schemas.Product\<close> has: a product with rating 7 is
  accepted and stored as it is.
\<close>

theorem post_products_rating_7:
  "fst (post_products demo_lib (VDict overrated_mug_body) fresh_world) =
     Inr ''000000000000000000000000'' \<and>
   map (\<lambda>d. map_of (doc_fields d) ''rating'')
     (colls (the (db (snd (post_products demo_lib (VDict overrated_mug_body) fresh_world))))
        ''product'') = [Some (VFloat 7)]"
proof -
  have c: "db fresh_world = Some empty_store" by (simp add: fresh_world_def)
  have g: "gen_oid demo_lib 0 = ''000000000000000000000000''"
    by (simp add: demo_lib_def hex4_def)
  have run: "post_products demo_lib (VDict overrated_mug_body) fresh_world =
      create_document demo_lib ''product''
        (dump_CreateProduct \<lparr>cp_title = ''Mug'', cp_description = None, cp_price = 9.99,
           cp_category = ''Home'', cp_in_stock = True, cp_image = None, cp_rating = Some 7\<rparr>)
        fresh_world"
    by (simp add: post_products_def parse_overrated_mug create_product_def)
  show ?thesis
    unfolding run create_document_configured [OF c]
    by (simp add: inserted_doc_def dump_CreateProduct_def opt_float_def opt_str_def
        empty_store_def g)
qed

subsection \<open>An absent database handle\<close>

text \<open>
  C5, as stated, fails: with no database handle, Get Product by Id on a malformed id
  answers InvalidIdFormat (400), not StoreUnconfigured.
\<close>

theorem get_product_unconfigured_malformed:
  "get_product demo_lib ''not-an-id'' unconfigured_world = Inl InvalidIdFormat"
  by (simp add: get_product_def demo_lib_def)

text \<open>
  C5, amended. With no database handle, List Products, List Orders and Seed fail with
  StoreUnconfigured (status 500) before any store call and leave the world as it is. A
  Create Order without items fails with EmptyOrder and a Get Product by Id with a
  malformed id fails with InvalidIdFormat, both before the handle is looked at.
\<close>

theorem unconfigured_store:
  assumes "db w = None"
  shows "list_products L q category limit w = Inl StoreUnconfigured \<and>
         list_orders L limit' w = Inl StoreUnconfigured \<and>
         seed_products L w = (Inl StoreUnconfigured, w) \<and>
         (co_items payload = [] \<longrightarrow> create_order L payload w = (Inl EmptyOrder, w)) \<and>
         (\<not> oid_is_valid L product_id \<longrightarrow> get_product L product_id w = Inl InvalidIdFormat) \<and>
         status_code StoreUnconfigured = 500"
  using assms
  by (simp add: list_products_def list_orders_def seed_products_def create_order_def
      get_product_def)

theorem unconfigured_store_witness:
  "db unconfigured_world = None \<and>
   list_products demo_lib None None 50 unconfigured_world = Inl StoreUnconfigured \<and>
   list_orders demo_lib 20 unconfigured_world = Inl StoreUnconfigured \<and>
   seed_products demo_lib unconfigured_world = (Inl StoreUnconfigured, unconfigured_world) \<and>
   get_product demo_lib ''not-an-id'' unconfigured_world = Inl InvalidIdFormat"
proof -
  have h: "db unconfigured_world = None" by (simp add: unconfigured_world_def)
  have v: "\<not> oid_is_valid demo_lib ''not-an-id''" by (simp add: demo_lib_def)
  show ?thesis
    using h v unconfigured_store [OF h, of demo_lib None None 50 20 mug_order "''not-an-id''"]
    by simp
qed

subsection \<open>Get Product by Id\<close>

lemma coll_find_IdIs: "coll_find L docs [IdIs i] = Inr (filter (\<lambda>d. doc_id d = i) docs)"
  by (simp add: coll_find_def)

lemma find_one_IdIs: "find_one L docs [IdIs i] = Inr (List.find (\<lambda>d. doc_id d = i) docs)"
proof -
  have "(case filter P docs of [] \<Rightarrow> None | d # ds \<Rightarrow> Some d) = List.find P docs" for P :: "doc \<Rightarrow> bool"
    by (induction docs) simp_all
  then show ?thesis
    by (simp add: find_one_def coll_find_IdIs split: list.splits) (metis list.simps(4,5))
qed

text \<open>
  C6, as stated, fails: a well-formed id whose document has no \<^verbatim>\<open>title\<close> gets
  neither InvalidIdFormat nor NotFound nor a product output, but an uncaught
  validation error of the response model.
\<close>

theorem get_product_untitled:
  "get_product demo_lib ''65F0A1B2C3D4E5F601234567'' untitled_world =
   Inl (Uncaught ValidationError)"
proof -
  have v: "oid_is_valid demo_lib ''65F0A1B2C3D4E5F601234567''"
    by (simp add: demo_lib_def is_hex_def)
  have p: "oid_of_str demo_lib ''65F0A1B2C3D4E5F601234567'' = doc_id untitled_doc"
    by (simp add: demo_lib_def lower_def untitled_doc_def)
  have u: "product_out demo_lib untitled_doc = Inl (Uncaught ValidationError)"
    by (simp add: product_out_def untitled_doc_def dict_get_def py_get_def)
  show ?thesis
    by (simp add: get_product_def v find_one_IdIs p u untitled_world_def untitled_store_def)
qed

text \<open>
  C6, amended. Get Product by Id fails with InvalidIdFormat (status 400) for every id
  that the store's format rule rejects, whatever the state of the store and even without a
  database handle. On a configured store, a well-formed id that no stored product
  carries fails with NotFound (status 404), and a well-formed id of a stored product returns the
  mapping of the first such product: its output, or the mapping's failure when the
  document does not map.
\<close>

theorem get_product_cases:
  "(\<not> oid_is_valid L product_id \<longrightarrow> get_product L product_id w = Inl InvalidIdFormat) \<and>
   (oid_is_valid L product_id \<and> db w = Some s \<and>
    (\<forall>d \<in> set (colls s ''product''). doc_id d \<noteq> oid_of_str L product_id) \<longrightarrow>
      get_product L product_id w = Inl NotFound) \<and>
   (oid_is_valid L product_id \<and> db w = Some s \<and>
    List.find (\<lambda>d. doc_id d = oid_of_str L product_id) (colls s ''product'') = Some d \<longrightarrow>
      get_product L product_id w = product_out L d) \<and>
   status_code InvalidIdFormat = 400 \<and> status_code NotFound = 404"
proof (intro conjI impI)
  assume "\<not> oid_is_valid L product_id"
  then show "get_product L product_id w = Inl InvalidIdFormat"
    by (simp add: get_product_def)
next
  assume a: "oid_is_valid L product_id \<and> db w = Some s \<and>
    (\<forall>d \<in> set (colls s ''product''). doc_id d \<noteq> oid_of_str L product_id)"
  then have "List.find (\<lambda>d. doc_id d = oid_of_str L product_id) (colls s ''product'') = None"
    by (simp add: find_None_iff)
  with a show "get_product L product_id w = Inl NotFound"
    by (simp add: get_product_def find_one_IdIs)
next
  assume "oid_is_valid L product_id \<and> db w = Some s \<and>
    List.find (\<lambda>d. doc_id d = oid_of_str L product_id) (colls s ''product'') = Some d"
  then show "get_product L product_id w = product_out L d"
    by (simp add: get_product_def find_one_IdIs)
next
  show "status_code InvalidIdFormat = 400" by simp
next
  show "status_code NotFound = 404" by simp
qed

theorem get_product_cases_witness:
  "\<not> oid_is_valid demo_lib ''not-an-id'' \<and>
   get_product demo_lib ''not-an-id'' mug_world = Inl InvalidIdFormat \<and>
   oid_is_valid demo_lib ''0000000000000000000000ff'' \<and>
   get_product demo_lib ''0000000000000000000000ff'' mug_world = Inl NotFound \<and>
   oid_is_valid demo_lib ''65F0A1B2C3D4E5F601234569'' \<and>
   get_product demo_lib ''65F0A1B2C3D4E5F601234569'' mug_world =
     Inr \<lparr>po_id = ''65f0a1b2c3d4e5f601234569'', po_title = ''Mug'', po_description = None,
          po_price = 9.99, po_category = ''Home'', po_in_stock = True, po_image = None,
          po_rating = Some 0\<rparr>"
proof -
  have c: "db mug_world = Some mug_store" by (simp add: mug_world_def)
  have docs: "colls mug_store ''product'' = [mug_doc]" by (simp add: mug_store_def)
  have n1: "\<not> oid_is_valid demo_lib ''not-an-id''" by (simp add: demo_lib_def)
  have v2: "oid_is_valid demo_lib ''0000000000000000000000ff''"
    by (simp add: demo_lib_def is_hex_def)
  have v3: "oid_is_valid demo_lib ''65F0A1B2C3D4E5F601234569''"
    by (simp add: demo_lib_def is_hex_def)
  have p2: "oid_of_str demo_lib ''0000000000000000000000ff'' = ''0000000000000000000000ff''"
    by (simp add: demo_lib_def lower_def)
  have p3: "oid_of_str demo_lib ''65F0A1B2C3D4E5F601234569'' = ''65f0a1b2c3d4e5f601234569''"
    by (simp add: demo_lib_def lower_def)
  have m2: "\<forall>d \<in> set (colls mug_store ''product'').
      doc_id d \<noteq> oid_of_str demo_lib ''0000000000000000000000ff''"
    unfolding docs p2 by (simp add: mug_doc_def)
  have m3: "List.find (\<lambda>d. doc_id d = oid_of_str demo_lib ''65F0A1B2C3D4E5F601234569'')
      (colls mug_store ''product'') = Some mug_doc"
    unfolding docs p3 by (simp add: mug_doc_def)
  have out: "product_out demo_lib mug_doc =
     Inr \<lparr>po_id = ''65f0a1b2c3d4e5f601234569'', po_title = ''Mug'', po_description = None,
          po_price = 9.99, po_category = ''Home'', po_in_stock = True, po_image = None,
          po_rating = Some 0\<rparr>"
    by (simp add: product_out_def mug_doc_def dict_get_def py_get_def)
  have a: "get_product demo_lib ''not-an-id'' mug_world = Inl InvalidIdFormat"
    using get_product_cases [of demo_lib "''not-an-id''" mug_world] n1 by blast
  have b: "get_product demo_lib ''0000000000000000000000ff'' mug_world = Inl NotFound"
    using get_product_cases [of demo_lib "''0000000000000000000000ff''" mug_world mug_store]
      v2 c m2 by blast
  have d: "get_product demo_lib ''65F0A1B2C3D4E5F601234569'' mug_world = product_out demo_lib mug_doc"
    using get_product_cases [of demo_lib "''65F0A1B2C3D4E5F601234569''" mug_world mug_store mug_doc]
      v3 c m3 by blast
  show ?thesis using n1 v2 v3 a b d out by simp
qed

subsection \<open>What Create Product writes\<close>

lemma parse_CreateProduct_defaults:
  assumes "parse_CreateProduct L (VDict kv) = Some p"
  shows "(map_of kv ''in_stock'' = None \<longrightarrow> cp_in_stock p) \<and>
         (map_of kv ''rating'' = None \<longrightarrow> cp_rating p = Some 0) \<and>
         (map_of kv ''description'' = None \<longrightarrow> cp_description p = None) \<and>
         (map_of kv ''image'' = None \<longrightarrow> cp_image p = None)"
  using assms
  by (auto simp: parse_CreateProduct_def defaulted_def split: Option.bind_splits if_splits)

lemma as_optional_None: "as_optional f v = Some None \<longleftrightarrow> v = VNull"
  by (cases v) auto

lemma parse_CreateProduct_rating:
  assumes "parse_CreateProduct L (VDict kv) = Some p"
  shows "cp_rating p = None \<longleftrightarrow> map_of kv ''rating'' = Some VNull"
proof -
  from assms have r: "defaulted (as_optional (as_float L)) (Some 0) kv ''rating'' = Some (cp_rating p)"
    by (auto simp: parse_CreateProduct_def split: Option.bind_splits if_splits)
  show ?thesis
  proof (cases "map_of kv ''rating''")
    case None
    with r have "cp_rating p = Some 0" by (simp add: defaulted_def)
    with None show ?thesis by simp
  next
    case (Some v)
    with r have "as_optional (as_float L) v = Some (cp_rating p)"
      by (simp add: defaulted_def)
    then have "cp_rating p = None \<longleftrightarrow> v = VNull"
      using as_optional_None [of "as_float L" v] by auto
    with Some show ?thesis by simp
  qed
qed

lemma map_of_dump_CreateProduct:
  "map_of (dump_CreateProduct p) ''title'' = Some (VStr (cp_title p))"
  "map_of (dump_CreateProduct p) ''description'' = Some (opt_str (cp_description p))"
  "map_of (dump_CreateProduct p) ''price'' = Some (VFloat (cp_price p))"
  "map_of (dump_CreateProduct p) ''category'' = Some (VStr (cp_category p))"
  "map_of (dump_CreateProduct p) ''in_stock'' = Some (VBool (cp_in_stock p))"
  "map_of (dump_CreateProduct p) ''image'' = Some (opt_str (cp_image p))"
  "map_of (dump_CreateProduct p) ''rating'' = Some (opt_float (cp_rating p))"
  by (simp_all add: dump_CreateProduct_def)

lemma as_optional_opt_str: "as_optional as_str (opt_str x) = Some x"
  by (cases x) (simp_all add: opt_str_def)

lemma product_out_dumped:
  "product_out L (inserted_doc L (dump_CreateProduct p) s) =
     Inr \<lparr>po_id = gen_oid L (next_oid s), po_title = cp_title p,
          po_description = cp_description p, po_price = cp_price p,
          po_category = cp_category p, po_in_stock = cp_in_stock p, po_image = cp_image p,
          po_rating = Some (case cp_rating p of None \<Rightarrow> 0 | Some r \<Rightarrow> r)\<rparr>"
proof -
  let ?f = "doc_fields (inserted_doc L (dump_CreateProduct p) s)"
  have g: "dict_get ?f ''price'' x = VFloat (cp_price p)"
    "dict_get ?f ''rating'' x = opt_float (cp_rating p)"
    "dict_get ?f ''category'' x = VStr (cp_category p)"
    "dict_get ?f ''in_stock'' x = VBool (cp_in_stock p)"
    "py_get ?f ''title'' = VStr (cp_title p)"
    "py_get ?f ''description'' = opt_str (cp_description p)"
    "py_get ?f ''image'' = opt_str (cp_image p)"
    "py_get ?f ''rating'' = opt_float (cp_rating p)" for x
    by (simp_all add: dict_get_def py_get_def map_of_inserted_doc map_of_dump_CreateProduct)
  have id: "doc_id (inserted_doc L (dump_CreateProduct p) s) = gen_oid L (next_oid s)"
    by (simp add: inserted_doc_def)
  show ?thesis
    unfolding product_out_def Let_def g id
    by (cases "cp_rating p") (simp_all add: opt_float_def as_optional_opt_str)
qed

lemma parse_unrated_mug:
  "parse_CreateProduct demo_lib (VDict unrated_mug_body) =
     Some \<lparr>cp_title = ''Mug'', cp_description = None, cp_price = 9.99, cp_category = ''Home'',
           cp_in_stock = True, cp_image = None, cp_rating = None\<rparr>"
  by (simp add: parse_CreateProduct_def required_def defaulted_def unrated_mug_body_def)

text \<open>
  C10, as stated, fails: a product sent with \<^verbatim>\<open>"rating": null\<close> is stored with a null
  rating, and reading it back gives the rating 0.0 through the reader's fallback
  \<^verbatim>\<open>... if d.get("rating") is not None else 0.0\<close>.
\<close>

theorem post_products_null_rating:
  "map (\<lambda>d. map_of (doc_fields d) ''rating'')
     (colls (the (db (snd (post_products demo_lib (VDict unrated_mug_body) fresh_world))))
        ''product'') = [Some VNull] \<and>
   map (\<lambda>d. map_sum id po_rating (product_out demo_lib d))
     (colls (the (db (snd (post_products demo_lib (VDict unrated_mug_body) fresh_world))))
        ''product'') = [Inr (Some 0)]"
proof -
  let ?p = "\<lparr>cp_title = ''Mug'', cp_description = None, cp_price = 9.99, cp_category = ''Home'',
           cp_in_stock = True, cp_image = None, cp_rating = None\<rparr>"
  have c: "db fresh_world = Some empty_store" by (simp add: fresh_world_def)
  have run: "post_products demo_lib (VDict unrated_mug_body) fresh_world =
      create_document demo_lib ''product'' (dump_CreateProduct ?p) fresh_world"
    by (simp add: post_products_def parse_unrated_mug create_product_def)
  have docs: "colls (the (db (snd (post_products demo_lib (VDict unrated_mug_body) fresh_world))))
        ''product'' = [inserted_doc demo_lib (dump_CreateProduct ?p) empty_store]"
    unfolding run create_document_configured [OF c] by (simp add: empty_store_def)
  show ?thesis
    unfolding docs
    by (simp add: map_of_inserted_doc map_of_dump_CreateProduct opt_float_def
        product_out_dumped)
qed

text \<open>
  C10, amended. A valid Create Product request on a configured store appends one
  document, which holds each of the seven schema fields with the value of the validated
  payload: \<^verbatim>\<open>in_stock\<close> is \<^verbatim>\<open>True\<close> and \<^verbatim>\<open>rating\<close> 0.0 when the client left them
  out, \<^verbatim>\<open>description\<close> and \<^verbatim>\<open>image\<close> are stored as null when left out. Hence
  \<^verbatim>\<open>d.get(k, default)\<close> on that document never returns its default. The reader's other
  fallback, 0.0 for a null rating, is taken exactly when the client sent
  \<^verbatim>\<open>"rating": null\<close>; in every case mapping the document back gives the payload's
  values, with 0.0 for a null rating.
\<close>

theorem create_product_materializes:
  assumes valid: "parse_CreateProduct L (VDict kv) = Some p"
    and conf: "db w = Some s"
  shows "\<exists>i w' s' d.
     post_products L (VDict kv) w = (Inr i, w') \<and> db w' = Some s' \<and>
     colls s' ''product'' = colls s ''product'' @ [d] \<and> doc_id d = i \<and>
     map_of (doc_fields d) ''title'' = Some (VStr (cp_title p)) \<and>
     map_of (doc_fields d) ''description'' = Some (opt_str (cp_description p)) \<and>
     map_of (doc_fields d) ''price'' = Some (VFloat (cp_price p)) \<and>
     map_of (doc_fields d) ''category'' = Some (VStr (cp_category p)) \<and>
     map_of (doc_fields d) ''in_stock'' = Some (VBool (cp_in_stock p)) \<and>
     map_of (doc_fields d) ''image'' = Some (opt_str (cp_image p)) \<and>
     map_of (doc_fields d) ''rating'' = Some (opt_float (cp_rating p)) \<and>
     (map_of kv ''in_stock'' = None \<longrightarrow> map_of (doc_fields d) ''in_stock'' = Some (VBool True)) \<and>
     (map_of kv ''rating'' = None \<longrightarrow> map_of (doc_fields d) ''rating'' = Some (VFloat 0)) \<and>
     (map_of kv ''description'' = None \<longrightarrow> map_of (doc_fields d) ''description'' = Some VNull) \<and>
     (map_of kv ''image'' = None \<longrightarrow> map_of (doc_fields d) ''image'' = Some VNull) \<and>
     (\<forall>k \<in> set [''title'', ''description'', ''price'', ''category'', ''in_stock'', ''image'',
                  ''rating''].
        \<forall>dflt. Some (dict_get (doc_fields d) k dflt) = map_of (doc_fields d) k) \<and>
     (py_get (doc_fields d) ''rating'' = VNull \<longleftrightarrow> map_of kv ''rating'' = Some VNull) \<and>
     product_out L d =
       Inr \<lparr>po_id = i, po_title = cp_title p, po_description = cp_description p,
            po_price = cp_price p, po_category = cp_category p,
            po_in_stock = cp_in_stock p, po_image = cp_image p,
            po_rating = Some (case cp_rating p of None \<Rightarrow> 0 | Some r \<Rightarrow> r)\<rparr>"
proof -
  let ?d = "inserted_doc L (dump_CreateProduct p) s"
  let ?s' = "s\<lparr>colls := (colls s)(''product'' := colls s ''product'' @ [?d]),
                next_oid := Suc (next_oid s)\<rparr>"
  let ?w' = "w\<lparr>db := Some ?s'\<rparr>"
  have run: "post_products L (VDict kv) w = (Inr (gen_oid L (next_oid s)), ?w')"
    by (simp add: post_products_def valid create_product_def create_document_configured [OF conf])
  have f: "map_of (doc_fields ?d) k = map_of (dump_CreateProduct p) k" for k
    by (rule map_of_inserted_doc)
  note dflt = parse_CreateProduct_defaults [OF valid]
  have fields: "map_of (doc_fields ?d) ''title'' = Some (VStr (cp_title p))"
    "map_of (doc_fields ?d) ''description'' = Some (opt_str (cp_description p))"
    "map_of (doc_fields ?d) ''price'' = Some (VFloat (cp_price p))"
    "map_of (doc_fields ?d) ''category'' = Some (VStr (cp_category p))"
    "map_of (doc_fields ?d) ''in_stock'' = Some (VBool (cp_in_stock p))"
    "map_of (doc_fields ?d) ''image'' = Some (opt_str (cp_image p))"
    "map_of (doc_fields ?d) ''rating'' = Some (opt_float (cp_rating p))"
    by (simp_all add: f map_of_dump_CreateProduct)
  have omitted:
    "map_of kv ''in_stock'' = None \<longrightarrow> map_of (doc_fields ?d) ''in_stock'' = Some (VBool True)"
    "map_of kv ''rating'' = None \<longrightarrow> map_of (doc_fields ?d) ''rating'' = Some (VFloat 0)"
    "map_of kv ''description'' = None \<longrightarrow> map_of (doc_fields ?d) ''description'' = Some VNull"
    "map_of kv ''image'' = None \<longrightarrow> map_of (doc_fields ?d) ''image'' = Some VNull"
    using dflt by (auto simp: fields opt_float_def opt_str_def)
  have nodefault: "\<forall>k \<in> set [''title'', ''description'', ''price'', ''category'', ''in_stock'',
       ''image'', ''rating''].
       \<forall>dflt. Some (dict_get (doc_fields ?d) k dflt) = map_of (doc_fields ?d) k"
    by (simp add: dict_get_def fields)
  have null: "py_get (doc_fields ?d) ''rating'' = VNull \<longleftrightarrow> map_of kv ''rating'' = Some VNull"
  proof -
    have "py_get (doc_fields ?d) ''rating'' = VNull \<longleftrightarrow> cp_rating p = None"
      by (cases "cp_rating p") (simp_all add: py_get_def dict_get_def fields opt_float_def)
    then show ?thesis by (simp add: parse_CreateProduct_rating [OF valid])
  qed
  have id: "doc_id ?d = gen_oid L (next_oid s)" by (simp add: inserted_doc_def)
  have pod: "product_out L ?d =
       Inr \<lparr>po_id = gen_oid L (next_oid s), po_title = cp_title p,
            po_description = cp_description p, po_price = cp_price p,
            po_category = cp_category p, po_in_stock = cp_in_stock p, po_image = cp_image p,
            po_rating = Some (case cp_rating p of None \<Rightarrow> 0 | Some r \<Rightarrow> r)\<rparr>"
    by (rule product_out_dumped)
  have st: "db ?w' = Some ?s'" "colls ?s' ''product'' = colls s ''product'' @ [?d]"
    by simp_all
  show ?thesis
    apply (rule exI [of _ "gen_oid L (next_oid s)"])
    apply (rule exI [of _ ?w'])
    apply (rule exI [of _ ?s'])
    apply (rule exI [of _ ?d])
    apply (intro conjI)
    apply (fact run st id fields omitted nodefault null pod)+
    done
qed

theorem create_product_materializes_witness:
  "parse_CreateProduct demo_lib (VDict mug_body) \<noteq> None \<and>
   db fresh_world = Some empty_store \<and>
   (\<exists>i w' (d::doc). post_products demo_lib (VDict mug_body) fresh_world = (Inr i, w') \<and>
      map (\<lambda>k. map_of (doc_fields d) k)
        [''title'', ''description'', ''price'', ''category'', ''in_stock'', ''image'', ''rating''] =
      [Some (VStr ''Mug''), Some VNull, Some (VFloat 9.99), Some (VStr ''Home''),
       Some (VBool True), Some VNull, Some (VFloat 0)])"
proof -
  let ?p = "\<lparr>cp_title = ''Mug'', cp_description = None, cp_price = 9.99, cp_category = ''Home'',
           cp_in_stock = True, cp_image = None, cp_rating = Some 0\<rparr>"
  have v: "parse_CreateProduct demo_lib (VDict mug_body) = Some ?p"
    by (simp add: parse_CreateProduct_def required_def defaulted_def mug_body_def)
  have c: "db fresh_world = Some empty_store" by (simp add: fresh_world_def)
  from create_product_materializes [OF v c]
  have "\<exists>i w' (d::doc). post_products demo_lib (VDict mug_body) fresh_world = (Inr i, w') \<and>
      map_of (doc_fields d) ''title'' = Some (VStr (cp_title ?p)) \<and>
      map_of (doc_fields d) ''description'' = Some (opt_str (cp_description ?p)) \<and>
      map_of (doc_fields d) ''price'' = Some (VFloat (cp_price ?p)) \<and>
      map_of (doc_fields d) ''category'' = Some (VStr (cp_category ?p)) \<and>
      map_of (doc_fields d) ''in_stock'' = Some (VBool (cp_in_stock ?p)) \<and>
      map_of (doc_fields d) ''image'' = Some (opt_str (cp_image ?p)) \<and>
      map_of (doc_fields d) ''rating'' = Some (opt_float (cp_rating ?p))"
    by (elim exE conjE) (intro exI conjI; assumption)
  then obtain i w' and d :: doc where r: "post_products demo_lib (VDict mug_body) fresh_world = (Inr i, w')"
    and f: "map_of (doc_fields d) ''title'' = Some (VStr (cp_title ?p))"
      "map_of (doc_fields d) ''description'' = Some (opt_str (cp_description ?p))"
      "map_of (doc_fields d) ''price'' = Some (VFloat (cp_price ?p))"
      "map_of (doc_fields d) ''category'' = Some (VStr (cp_category ?p))"
      "map_of (doc_fields d) ''in_stock'' = Some (VBool (cp_in_stock ?p))"
      "map_of (doc_fields d) ''image'' = Some (opt_str (cp_image ?p))"
      "map_of (doc_fields d) ''rating'' = Some (opt_float (cp_rating ?p))"
    by blast
  have m: "map (\<lambda>k. map_of (doc_fields d) k)
        [''title'', ''description'', ''price'', ''category'', ''in_stock'', ''image'', ''rating''] =
      [Some (VStr ''Mug''), Some VNull, Some (VFloat 9.99), Some (VStr ''Home''),
       Some (VBool True), Some VNull, Some (VFloat 0)]"
    unfolding list.map f by (simp add: opt_str_def opt_float_def)
  have nn: "parse_CreateProduct demo_lib (VDict mug_body) \<noteq> None"
    using v by simp
  show ?thesis
  proof (intro conjI exI)
    show "parse_CreateProduct demo_lib (VDict mug_body) \<noteq> None" by (rule nn)
    show "db fresh_world = Some empty_store" by (rule c)
    show "post_products demo_lib (VDict mug_body) fresh_world = (Inr i, w')" by (rule r)
    show "map (\<lambda>k. map_of (doc_fields d) k)
        [''title'', ''description'', ''price'', ''category'', ''in_stock'', ''image'', ''rating''] =
      [Some (VStr ''Mug''), Some VNull, Some (VFloat 9.99), Some (VStr ''Home''),
       Some (VBool True), Some VNull, Some (VFloat 0)]" by (rule m)
  qed
qed

subsection \<open>Seed\<close>

lemma find_via_filter:
  "(case filter P xs of [] \<Rightarrow> None | x # ys \<Rightarrow> Some x) = List.find P xs"
  by (induction xs) simp_all

lemma has_title_fn:
  "(\<lambda>d. field_matches (\<lambda>x. x = t) (map_of (doc_fields d) ''title'')) = has_title t"
  by (rule ext) (simp add: has_title_def)

lemma find_one_title:
  "find_one L docs [FieldIs ''title'' t] = Inr (List.find (has_title t) docs)"
proof -
  have "coll_find L docs [FieldIs ''title'' t] = Inr (filter (has_title t) docs)"
    by (simp add: coll_find_def has_title_fn)
  then show ?thesis
    using find_via_filter [of "has_title t" docs]
    by (simp add: find_one_def split: list.splits)
qed

lemma find_one_title_None:
  "find_one L docs [FieldIs ''title'' t] = Inr None \<longleftrightarrow> \<not> list_ex (has_title t) docs"
  by (auto simp: find_one_title find_None_iff list_ex_iff)

lemma has_title_inserted:
  assumes "map_of p ''title'' = Some (VStr t)"
  shows "has_title t' (inserted_doc L p s) \<longleftrightarrow> t' = t"
  using assms by (auto simp: has_title_def map_of_inserted_doc)

text \<open>A pass of the loop over entries with distinct titles: it counts and appends the
  entries whose title no stored product has, in order.\<close>

lemma seed_loop_inserts:
  assumes "db w = Some s"
    and "distinct (map title_of ps)"
    and "\<forall>p \<in> set ps. map_of p ''title'' = Some (VStr (title_of p))"
  shows "\<exists>w' s' ds.
     seed_loop L ps k w =
       (Inr (k + length (filter (\<lambda>p. \<not> list_ex (has_title (title_of p)) (colls s ''product'')) ps)), w') \<and>
     db w' = Some s' \<and>
     colls s' ''product'' = colls s ''product'' @ ds \<and>
     map (\<lambda>d. map_of (doc_fields d) ''title'') ds =
       map (\<lambda>p. Some (VStr (title_of p)))
         (filter (\<lambda>p. \<not> list_ex (has_title (title_of p)) (colls s ''product'')) ps) \<and>
     (\<forall>p \<in> set ps. list_ex (has_title (title_of p)) (colls s' ''product''))"
  using assms
proof (induction ps arbitrary: k w s)
  case Nil
  then show ?case by simp
next
  case (Cons p ps)
  let ?t = "title_of p"
  let ?docs = "colls s ''product''"
  from Cons.prems have dist: "distinct (map title_of ps)" and fresh: "?t \<notin> title_of ` set ps"
    and titled: "\<forall>p \<in> set ps. map_of p ''title'' = Some (VStr (title_of p))"
    and tp: "map_of p ''title'' = Some (VStr ?t)"
    by simp_all
  show ?case
  proof (cases "list_ex (has_title ?t) ?docs")
    case True
    then obtain e where e: "List.find (has_title ?t) ?docs = Some e"
      by (cases "List.find (has_title ?t) ?docs") (auto simp: find_None_iff list_ex_iff)
    have step: "seed_loop L (p # ps) k w = seed_loop L ps k w"
      using Cons.prems(1) e by (simp add: find_one_title)
    from Cons.IH [OF Cons.prems(1) dist titled, of k]
    obtain w' s' ds where
      "seed_loop L ps k w =
        (Inr (k + length (filter (\<lambda>p. \<not> list_ex (has_title (title_of p)) ?docs) ps)), w')"
      "db w' = Some s'" "colls s' ''product'' = ?docs @ ds"
      "map (\<lambda>d. map_of (doc_fields d) ''title'') ds =
         map (\<lambda>p. Some (VStr (title_of p)))
           (filter (\<lambda>p. \<not> list_ex (has_title (title_of p)) ?docs) ps)"
      "\<forall>p \<in> set ps. list_ex (has_title (title_of p)) (colls s' ''product'')"
      by blast
    with True step show ?thesis
      by (auto simp: list_ex_iff)
  next
    case False
    let ?d = "inserted_doc L p s"
    let ?s1 = "s\<lparr>colls := (colls s)(''product'' := ?docs @ [?d]), next_oid := Suc (next_oid s)\<rparr>"
    let ?w1 = "w\<lparr>db := Some ?s1\<rparr>"
    have none: "List.find (has_title ?t) ?docs = None"
      using False by (simp add: find_None_iff list_ex_iff)
    have step: "seed_loop L (p # ps) k w = seed_loop L ps (k + 1) ?w1"
      using Cons.prems(1) none
      by (simp add: find_one_title create_document_configured [OF Cons.prems(1)])
    have w1: "db ?w1 = Some ?s1" by simp
    have docs1: "colls ?s1 ''product'' = ?docs @ [?d]" by simp
    have same: "list_ex (has_title (title_of q)) (?docs @ [?d]) =
        list_ex (has_title (title_of q)) ?docs" if "q \<in> set ps" for q
    proof -
      from that fresh have "title_of q \<noteq> ?t" by (metis imageI)
      then have "\<not> has_title (title_of q) ?d"
        using has_title_inserted [OF tp, of "title_of q" L s] by simp
      then show ?thesis by (simp add: list_ex_iff)
    qed
    have filt: "filter (\<lambda>q. \<not> list_ex (has_title (title_of q)) (?docs @ [?d])) ps =
        filter (\<lambda>q. \<not> list_ex (has_title (title_of q)) ?docs) ps"
      by (rule filter_cong [OF refl]) (simp only: same)
    from Cons.IH [OF w1 dist titled, of "k + 1"]
    obtain w' s' ds where r:
      "seed_loop L ps (k + 1) ?w1 =
        (Inr (k + 1 + length (filter (\<lambda>p. \<not> list_ex (has_title (title_of p)) ?docs) ps)), w')"
      "db w' = Some s'" "colls s' ''product'' = ?docs @ [?d] @ ds"
      "map (\<lambda>d. map_of (doc_fields d) ''title'') ds =
         map (\<lambda>p. Some (VStr (title_of p)))
           (filter (\<lambda>p. \<not> list_ex (has_title (title_of p)) ?docs) ps)"
      "\<forall>p \<in> set ps. list_ex (has_title (title_of p)) (colls s' ''product'')"
      unfolding docs1 filt by auto
    have dt: "map_of (doc_fields ?d) ''title'' = Some (VStr ?t)"
      using tp by (simp add: map_of_inserted_doc)
    have here: "list_ex (has_title ?t) (colls s' ''product'')"
      using r(3) has_title_inserted [OF tp, of ?t L s] by (simp add: list_ex_iff)
    show ?thesis
      apply (rule exI [of _ w'], rule exI [of _ s'], rule exI [of _ "?d # ds"])
      using False step r dt here by simp
  qed
qed

lemma seed_loop_nothing:
  assumes "db w = Some s"
    and "\<forall>p \<in> set ps. list_ex (has_title (title_of p)) (colls s ''product'')"
  shows "seed_loop L ps k w = (Inr k, w)"
  using assms
proof (induction ps)
  case Nil
  then show ?case by simp
next
  case (Cons p ps)
  then obtain e where "List.find (has_title (title_of p)) (colls s ''product'') = Some e"
    by (cases "List.find (has_title (title_of p)) (colls s ''product'')")
       (auto simp: find_None_iff list_ex_iff)
  with Cons show ?case by (simp add: find_one_title)
qed

lemma sample_titles:
  "distinct (map title_of sample)"
  "\<forall>p \<in> set sample. map_of p ''title'' = Some (VStr (title_of p))"
  by (simp_all add: sample_def sample_product_def title_of_def)

text \<open>
  C8. On a configured store, Seed inserts the entries of the sample whose title no
  stored product has, one document each and in order, and reports their number; called
  again, it inserts nothing, reports 0 and leaves the store as it is, so the products
  are as many after two calls as after one.
\<close>

theorem seed_idempotent:
  assumes "db w = Some s"
  shows "\<exists>n w1 s1 ds.
     seed_products L w = (Inr n, w1) \<and> db w1 = Some s1 \<and>
     n = length (filter
           (\<lambda>p. find_one L (colls s ''product'') [FieldIs ''title'' (title_of p)] = Inr None)
           sample) \<and>
     colls s1 ''product'' = colls s ''product'' @ ds \<and> length ds = n \<and>
     map (\<lambda>d. map_of (doc_fields d) ''title'') ds =
       map (\<lambda>p. Some (VStr (title_of p)))
         (filter
           (\<lambda>p. find_one L (colls s ''product'') [FieldIs ''title'' (title_of p)] = Inr None)
           sample) \<and>
     seed_products L w1 = (Inr 0, w1) \<and>
     length (colls (the (db (snd (seed_products L w1)))) ''product'') =
       length (colls s1 ''product'')"
proof -
  let ?new = "filter (\<lambda>p. \<not> list_ex (has_title (title_of p)) (colls s ''product'')) sample"
  from seed_loop_inserts [OF assms sample_titles, of L 0]
  obtain w1 s1 ds where run: "seed_loop L sample 0 w = (Inr (length ?new), w1)"
    and w1: "db w1 = Some s1"
    and docs: "colls s1 ''product'' = colls s ''product'' @ ds"
    and titles: "map (\<lambda>d. map_of (doc_fields d) ''title'') ds =
        map (\<lambda>p. Some (VStr (title_of p))) ?new"
    and all: "\<forall>p \<in> set sample. list_ex (has_title (title_of p)) (colls s1 ''product'')"
    by auto
  have len: "length ds = length ?new"
    using arg_cong [OF titles, of length] by simp
  have first: "seed_products L w = (Inr (length ?new), w1)"
    using assms run by (simp add: seed_products_def)
  have second: "seed_products L w1 = (Inr 0, w1)"
    using w1 seed_loop_nothing [OF w1 all, of L 0] by (simp add: seed_products_def)
  show ?thesis
    apply (rule exI [of _ "length ?new"], rule exI [of _ w1], rule exI [of _ s1],
        rule exI [of _ ds])
    using first second w1 docs titles len by (simp add: find_one_title_None)
qed

theorem seed_idempotent_witness:
  "db fresh_world = Some empty_store \<and>
   (\<exists>w1. seed_products demo_lib fresh_world = (Inr 4, w1) \<and>
      seed_products demo_lib w1 = (Inr 0, w1))"
proof -
  have c: "db fresh_world = Some empty_store" by (simp add: fresh_world_def)
  have n: "length (filter
      (\<lambda>p. find_one demo_lib (colls empty_store ''product'') [FieldIs ''title'' (title_of p)] =
         Inr None) sample) = 4"
    by (simp add: find_one_title_None empty_store_def sample_def)
  from seed_idempotent [OF c, of demo_lib] n
  have "\<exists>w1. seed_products demo_lib fresh_world = (Inr 4, w1) \<and>
      seed_products demo_lib w1 = (Inr 0, w1)"
    by (elim exE conjE) (intro exI conjI, simp, assumption)
  with c show ?thesis by simp
qed

subsection \<open>List Products\<close>

lemma product_out_mug: "product_out demo_lib mug_doc = Inr mug_out"
  by (simp add: product_out_def mug_doc_def mug_out_def dict_get_def py_get_def)

lemma regex_demo_word:
  "list_all (\<lambda>c. is_word c \<or> c = CHR ''.'') p \<Longrightarrow> regex_i demo_lib p = Some (match_anywhere p)"
  by (simp add: demo_lib_def)

text \<open>
  C9, as stated, fails: \<^verbatim>\<open>q\<close> is handed to the store as a regular expression, so
  \<^verbatim>\<open>q = "m.g"\<close> returns the product titled "Mug", whose title does not contain
  "m.g".
\<close>

theorem list_products_regex:
  "list_products demo_lib (Some ''m.g'') None 50 mug_world = Inr [mug_out] \<and>
   \<not> spec_contains_ci ''m.g'' (po_title mug_out)"
proof -
  have r: "regex_i demo_lib ''m.g'' = Some (match_anywhere ''m.g'')"
    by (rule regex_demo_word) (simp add: is_word_def)
  have m: "field_matches (match_anywhere ''m.g'') (map_of (doc_fields mug_doc) ''title'')"
    by (simp add: mug_doc_def lower_def)
  have "list_products demo_lib (Some ''m.g'') None 50 mug_world = Inr [mug_out]"
    by (simp add: list_products_def mug_world_def mug_store_def filter_query_def coll_find_def
        r cursor_limit_def product_out_mug m)
  moreover have "\<not> spec_contains_ci ''m.g'' (po_title mug_out)"
    by (simp add: mug_out_def lower_def)
  ultimately show ?thesis by simp
qed

lemma products_of_map:
  "products_of L ds = Inr ps \<longleftrightarrow> map (product_out L) ds = map Inr ps"
proof (induction ds arbitrary: ps)
  case Nil
  then show ?case by auto
next
  case (Cons d ds)
  show ?case
  proof (cases "product_out L d")
    case (Inl e)
    then show ?thesis by (cases ps) auto
  next
    case (Inr p)
    show ?thesis
    proof (cases "products_of L ds")
      case (Inl e)
      with Cons.IH Inr show ?thesis by (cases ps) auto
    next
      case r: (Inr qs)
      with Cons.IH [of qs] Cons.IH Inr show ?thesis
        by (cases ps) auto
    qed
  qed
qed

lemma products_of_total:
  "(\<forall>d \<in> set ds. \<exists>p. product_out L d = Inr p) \<Longrightarrow> \<exists>ps. products_of L ds = Inr ps"
  by (induction ds) auto

lemma compile_filter_query:
  "compile_filter L (filter_query q category) =
     (if truthy q \<and> regex_i L (the q) = None then None
      else Some (\<lambda>d.
        (truthy q \<longrightarrow> field_matches (the (regex_i L (the q))) (map_of (doc_fields d) ''title'')) \<and>
        (truthy category \<longrightarrow>
           field_matches (\<lambda>x. x = the category) (map_of (doc_fields d) ''category''))))"
  by (auto simp: filter_query_def)

lemma length_cursor_limit: "n \<noteq> 0 \<Longrightarrow> length (cursor_limit n xs) \<le> nat \<bar>n\<bar>"
  by (simp add: cursor_limit_def)

text \<open>
  C9, amended. On a configured store, List Products selects the stored products that
  satisfy both filters: when \<^verbatim>\<open>q\<close> is given and not empty, the title matches \<^verbatim>\<open>q\<close>
  as a case-insensitive regular expression of the store (a pattern the store rejects
  fails the request); when \<^verbatim>\<open>category\<close> is given and not empty, the category equals
  it. Of these, in store order, it takes the first \<open>\<bar>limit\<bar>\<close>, or all when \<open>limit\<close> is
  0, and returns their outputs in that order, if every one of them maps; the request
  fails otherwise. The limit defaults to 50.
\<close>

theorem list_products_selects:
  assumes "db w = Some s"
  shows "(truthy q \<and> regex_i L (the q) = None \<longrightarrow>
            list_products L q category limit w = Inl (Uncaught OperationFailure)) \<and>
         (\<not> (truthy q \<and> regex_i L (the q) = None) \<longrightarrow>
            (\<exists>sel. sel = cursor_limit limit (filter (\<lambda>d.
                 (truthy q \<longrightarrow>
                    field_matches (the (regex_i L (the q))) (map_of (doc_fields d) ''title'')) \<and>
                 (truthy category \<longrightarrow>
                    field_matches (\<lambda>x. x = the category) (map_of (doc_fields d) ''category'')))
                 (colls s ''product'')) \<and>
               list_products L q category limit w = products_of L sel \<and>
               (limit \<noteq> 0 \<longrightarrow> length sel \<le> nat \<bar>limit\<bar>) \<and>
               (limit = 0 \<longrightarrow> length sel = length (filter (\<lambda>d.
                 (truthy q \<longrightarrow>
                    field_matches (the (regex_i L (the q))) (map_of (doc_fields d) ''title'')) \<and>
                 (truthy category \<longrightarrow>
                    field_matches (\<lambda>x. x = the category) (map_of (doc_fields d) ''category'')))
                 (colls s ''product''))) \<and>
               (\<forall>ps. products_of L sel = Inr ps \<longleftrightarrow> map (product_out L) sel = map Inr ps) \<and>
               ((\<forall>d \<in> set sel. \<exists>p. product_out L d = Inr p) \<longrightarrow>
                  (\<exists>ps. list_products L q category limit w = Inr ps)))) \<and>
         get_products L q category None w = list_products L q category 50 w"
proof (intro conjI impI)
  assume "truthy q \<and> regex_i L (the q) = None"
  then show "list_products L q category limit w = Inl (Uncaught OperationFailure)"
    using assms by (simp add: list_products_def coll_find_def compile_filter_query)
next
  let ?P = "\<lambda>d. (truthy q \<longrightarrow>
                    field_matches (the (regex_i L (the q))) (map_of (doc_fields d) ''title'')) \<and>
                 (truthy category \<longrightarrow>
                    field_matches (\<lambda>x. x = the category) (map_of (doc_fields d) ''category''))"
  let ?sel = "cursor_limit limit (filter ?P (colls s ''product''))"
  assume ok: "\<not> (truthy q \<and> regex_i L (the q) = None)"
  have run: "list_products L q category limit w = products_of L ?sel"
    using assms by (simp add: list_products_def coll_find_def compile_filter_query ok)
  have len: "limit \<noteq> 0 \<longrightarrow> length ?sel \<le> nat \<bar>limit\<bar>"
    using length_cursor_limit [of limit] by blast
  have all: "limit = 0 \<longrightarrow> length ?sel = length (filter ?P (colls s ''product''))"
    by (simp add: cursor_limit_def)
  have tot: "(\<forall>d \<in> set ?sel. \<exists>p. product_out L d = Inr p) \<longrightarrow>
      (\<exists>ps. list_products L q category limit w = Inr ps)"
    unfolding run using products_of_total [of ?sel L] by blast
  show "\<exists>sel. sel = ?sel \<and>
               list_products L q category limit w = products_of L sel \<and>
               (limit \<noteq> 0 \<longrightarrow> length sel \<le> nat \<bar>limit\<bar>) \<and>
               (limit = 0 \<longrightarrow> length sel = length (filter ?P (colls s ''product''))) \<and>
               (\<forall>ps. products_of L sel = Inr ps \<longleftrightarrow> map (product_out L) sel = map Inr ps) \<and>
               ((\<forall>d \<in> set sel. \<exists>p. product_out L d = Inr p) \<longrightarrow>
                  (\<exists>ps. list_products L q category limit w = Inr ps))"
    using run len all tot products_of_map [of L ?sel] by blast
next
  show "get_products L q category None w = list_products L q category 50 w"
    by (simp add: get_products_def)
qed

theorem list_products_selects_witness:
  "db mug_world = Some mug_store \<and>
   list_products demo_lib (Some ''MUG'') (Some ''Home'') 50 mug_world = Inr [mug_out] \<and>
   list_products demo_lib (Some ''MUG'') (Some ''Garden'') 50 mug_world = Inr []"
proof -
  have c: "db mug_world = Some mug_store" by (simp add: mug_world_def)
  have r: "regex_i demo_lib ''MUG'' = Some (match_anywhere ''MUG'')"
    by (rule regex_demo_word) (simp add: is_word_def)
  have ok: "\<not> (truthy (Some ''MUG'') \<and> regex_i demo_lib (the (Some ''MUG'')) = None)"
    using r by simp
  have f: "field_matches (match_anywhere ''MUG'') (map_of (doc_fields mug_doc) ''title'')"
    "field_matches (\<lambda>x. x = ''Home'') (map_of (doc_fields mug_doc) ''category'')"
    "\<not> field_matches (\<lambda>x. x = ''Garden'') (map_of (doc_fields mug_doc) ''category'')"
    by (simp_all add: mug_doc_def lower_def)
  have docs: "colls mug_store ''product'' = [mug_doc]" by (simp add: mug_store_def)
  from list_products_selects [OF c, of "Some ''MUG''" demo_lib "Some ''Home''" 50] ok
  have "list_products demo_lib (Some ''MUG'') (Some ''Home'') 50 mug_world =
      products_of demo_lib (cursor_limit 50 (filter (\<lambda>d.
                 (truthy (Some ''MUG'') \<longrightarrow>
                    field_matches (the (regex_i demo_lib (the (Some ''MUG''))))
                      (map_of (doc_fields d) ''title'')) \<and>
                 (truthy (Some ''Home'') \<longrightarrow>
                    field_matches (\<lambda>x. x = the (Some ''Home'')) (map_of (doc_fields d) ''category'')))
                 (colls mug_store ''product'')))"
    by blast
  then have a: "list_products demo_lib (Some ''MUG'') (Some ''Home'') 50 mug_world = Inr [mug_out]"
    by (simp add: docs r f cursor_limit_def product_out_mug)
  from list_products_selects [OF c, of "Some ''MUG''" demo_lib "Some ''Garden''" 50] ok
  have "list_products demo_lib (Some ''MUG'') (Some ''Garden'') 50 mug_world =
      products_of demo_lib (cursor_limit 50 (filter (\<lambda>d.
                 (truthy (Some ''MUG'') \<longrightarrow>
                    field_matches (the (regex_i demo_lib (the (Some ''MUG''))))
                      (map_of (doc_fields d) ''title'')) \<and>
                 (truthy (Some ''Garden'') \<longrightarrow>
                    field_matches (\<lambda>x. x = the (Some ''Garden'')) (map_of (doc_fields d) ''category'')))
                 (colls mug_store ''product'')))"
    by blast
  then have b: "list_products demo_lib (Some ''MUG'') (Some ''Garden'') 50 mug_world = Inr []"
    by (simp add: docs r f cursor_limit_def)
  from a b c show ?thesis by simp
qed

subsection \<open>The stored order and the order list\<close>






end
